theory Spec2Isabelle
  imports Main "HOL-Library.Multiset"
begin

section \<open>JavaScript values, objects and the heap\<close>

text \<open>
  The store of \<^verbatim>\<open>server/storage.ts\<close> keeps plain JavaScript objects in \<^verbatim>\<open>Map\<close>s and
  hands out references to them. The declarations of the entity types (\<^verbatim>\<open>@shared/schema\<close>)
  are not among the sources, so an entity is modelled as the runtime has it: an object
  that maps property names to values, living in a heap, and referred to by its address.

  JavaScript numbers are doubles; they are idealised as unbounded integers here. The id
  counters and the download counters start at 1 and 0 and are incremented by 1, and a vote
  count moves by the vote value (1 or -1 from the routes): such values are exact as
  doubles up to \<open>2\<^sup>5\<^sup>3\<close>, which no run of an in-memory store reaches. \<^verbatim>\<open>NaN\<close>,
  infinities and non-integral numbers are not represented.
\<close>

datatype jsval = JUndefined | JNull | JBool bool | JNum int | JStr string | JRef nat

type_synonym props = "string \<Rightarrow> jsval option"

datatype cell = Object props | DateObj "int option"

text \<open>A \<^verbatim>\<open>Date\<close> object holds a time value in milliseconds, or none (\<^verbatim>\<open>Invalid Date\<close>).\<close>

definition lookup :: "cell list \<Rightarrow> nat \<Rightarrow> cell option" where
  "lookup h a = (if a < length h then Some (h ! a) else None)"

text \<open>\<^verbatim>\<open>o[key]\<close> on the own properties of an object; a missing property reads as
  \<^verbatim>\<open>undefined\<close>. Inherited properties of \<^verbatim>\<open>Object.prototype\<close> are not modelled.\<close>

definition own_prop :: "props \<Rightarrow> string \<Rightarrow> jsval" where
  "own_prop f key = (case f key of None \<Rightarrow> JUndefined | Some v \<Rightarrow> v)"

text \<open>\<^verbatim>\<open>{...o}\<close>: the own enumerable properties of the object at an address (a
  \<^verbatim>\<open>Date\<close> has none).\<close>

definition spread :: "cell list \<Rightarrow> nat \<Rightarrow> props" where
  "spread h a = (case lookup h a of Some (Object f) \<Rightarrow> f | _ \<Rightarrow> Map.empty)"

text \<open>\<^verbatim>\<open>o.key\<close> through a reference.\<close>

definition get_field :: "cell list \<Rightarrow> nat \<Rightarrow> string \<Rightarrow> jsval" where
  "get_field h a key = own_prop (spread h a) key"

text \<open>\<^verbatim>\<open>===\<close>: primitives compare by value, objects by reference.\<close>

definition strict_eq :: "jsval \<Rightarrow> jsval \<Rightarrow> bool" where
  "strict_eq v w = (v = w)"

text \<open>\<^verbatim>\<open>a + b\<close> is used by the store only on operands whose declared type is
  \<^verbatim>\<open>number\<close> (\<^verbatim>\<open>downloads\<close>, \<^verbatim>\<open>votes\<close> and the vote value); there it adds. The
  string and object cases of JavaScript's \<^verbatim>\<open>+\<close> are outside the declared types and are
  not modelled: they yield \<^verbatim>\<open>JUndefined\<close> here.\<close>

fun js_add :: "jsval \<Rightarrow> jsval \<Rightarrow> jsval" where
  "js_add (JNum x) (JNum y) = JNum (x + y)"
| "js_add _ _ = JUndefined"

text \<open>The time value of \<^verbatim>\<open>new Date(v)\<close>. A \<^verbatim>\<open>Date\<close> argument is copied, a string is
  parsed by the runtime (\<open>parse\<close>, a parameter; \<open>None\<close> is \<^verbatim>\<open>NaN\<close>), anything else is
  converted to a number and clipped to the range of valid time values.\<close>

definition timeClip :: "int \<Rightarrow> int option" where
  "timeClip t = (if \<bar>t\<bar> \<le> 8640000000000000 then Some t else None)"

fun dateValue :: "(string \<Rightarrow> int option) \<Rightarrow> cell list \<Rightarrow> jsval \<Rightarrow> int option" where
  "dateValue parse h JUndefined = None"
| "dateValue parse h JNull = Some 0"
| "dateValue parse h (JBool b) = Some (if b then 1 else 0)"
| "dateValue parse h (JNum n) = timeClip n"
| "dateValue parse h (JStr s) = parse s"
| "dateValue parse h (JRef a) = (case lookup h a of Some (DateObj t) \<Rightarrow> t | _ \<Rightarrow> None)"

section \<open>The JavaScript Map\<close>

text \<open>
  A \<^verbatim>\<open>Map<number, T>\<close> iterates in insertion order; \<^verbatim>\<open>set\<close> on a present key keeps
  the key's position, \<^verbatim>\<open>delete\<close> reports whether the key was present. It is an
  association list here, the values being the addresses of the stored objects.
\<close>

type_synonym jsMap = "(int \<times> nat) list"

definition Map_get :: "jsMap \<Rightarrow> int \<Rightarrow> nat option" where
  "Map_get m k = map_of m k"

fun Map_set :: "jsMap \<Rightarrow> int \<Rightarrow> nat \<Rightarrow> jsMap" where
  "Map_set [] k v = [(k, v)]"
| "Map_set ((k', v') # m) k v = (if k' = k then (k, v) # m else (k', v') # Map_set m k v)"

definition Map_has :: "jsMap \<Rightarrow> int \<Rightarrow> bool" where
  "Map_has m k = (k \<in> set (map fst m))"

definition Map_delete :: "jsMap \<Rightarrow> jsval \<Rightarrow> bool \<times> jsMap" where
  "Map_delete m key =
     (case key of
        JNum k \<Rightarrow> (Map_has m k, filter (\<lambda>e. fst e \<noteq> k) m)
      | _ \<Rightarrow> (False, m))"

definition Map_values :: "jsMap \<Rightarrow> nat list" where
  "Map_values m = map snd m"

section \<open>The store\<close>

record MemStorage =
  heap :: "cell list"
  users :: jsMap
  papers :: jsMap
  discussionPosts :: jsMap
  discussionReplies :: jsMap
  resources :: jsMap
  studyGroups :: jsMap
  studyGroupMembers :: jsMap
  studySessions :: jsMap
  activities :: jsMap
  currentUserId :: int
  currentPaperId :: int
  currentDiscussionPostId :: int
  currentDiscussionReplyId :: int
  currentResourceId :: int
  currentStudyGroupId :: int
  currentStudyGroupMemberId :: int
  currentStudySessionId :: int
  currentActivityId :: int

text \<open>The constructor, run in a heap \<open>h\<close>. The session store is an external collaborator
  and is left out. Below, the operations keep the names of the source; an operation that
  changes the store returns its result together with the new store, a read returns its
  result only. The parameters \<^verbatim>\<open>id\<close>, \<^verbatim>\<open>group\<close>, \<^verbatim>\<open>member\<close> and \<^verbatim>\<open>value\<close> of the
  source are \<open>ident\<close>, \<open>grp\<close>, \<open>mem\<close> and \<open>val\<close> here, and \<open>clock\<close> is the time that
  \<^verbatim>\<open>new Date()\<close> reads during the call. The lookups of a user by name and by e-mail, the
  replies of a post, the sessions of a group and the activity feeds only read the store
  and are not part of this development.\<close>

definition MemStorage_constructor :: "cell list \<Rightarrow> MemStorage" where
  "MemStorage_constructor h =
     \<lparr> heap = h, users = [], papers = [], discussionPosts = [], discussionReplies = [],
       resources = [], studyGroups = [], studyGroupMembers = [], studySessions = [],
       activities = [],
       currentUserId = 1, currentPaperId = 1, currentDiscussionPostId = 1,
       currentDiscussionReplyId = 1, currentResourceId = 1, currentStudyGroupId = 1,
       currentStudyGroupMemberId = 1, currentStudySessionId = 1, currentActivityId = 1 \<rparr>"

text \<open>\<^verbatim>\<open>new Date()\<close> at clock reading \<open>t\<close>, and an object literal: both allocate a
  fresh cell at the end of the heap.\<close>

definition new_Date :: "int \<Rightarrow> MemStorage \<Rightarrow> nat \<times> MemStorage" where
  "new_Date t s = (length (heap s), s\<lparr>heap := heap s @ [DateObj (Some t)]\<rparr>)"

definition new_Object :: "props \<Rightarrow> MemStorage \<Rightarrow> nat \<times> MemStorage" where
  "new_Object f s = (length (heap s), s\<lparr>heap := heap s @ [Object f]\<rparr>)"

subsection \<open>User operations\<close>

definition getUser :: "int \<Rightarrow> MemStorage \<Rightarrow> nat option" where
  "getUser ident s = Map_get (users s) ident"

definition createUser :: "props \<Rightarrow> int \<Rightarrow> MemStorage \<Rightarrow> nat \<times> MemStorage" where
  "createUser insertUser clock s =
     (let ident = currentUserId s;
          s1 = s\<lparr>currentUserId := ident + 1\<rparr>;
          (now, s2) = new_Date clock s1;
          (user, s3) = new_Object
             (insertUser(''id'' \<mapsto> JNum ident, ''createdAt'' \<mapsto> JRef now, ''points'' \<mapsto> JNum 0)) s2
      in (user, s3\<lparr>users := Map_set (users s3) ident user\<rparr>))"

definition updateUser :: "int \<Rightarrow> props \<Rightarrow> MemStorage \<Rightarrow> nat option \<times> MemStorage" where
  "updateUser ident userData s =
     (case getUser ident s of
        None \<Rightarrow> (None, s)
      | Some user \<Rightarrow>
          let (updatedUser, s1) = new_Object (spread (heap s) user ++ userData) s
          in (Some updatedUser, s1\<lparr>users := Map_set (users s1) ident updatedUser\<rparr>))"

subsection \<open>Paper operations\<close>

definition createPaper :: "props \<Rightarrow> int \<Rightarrow> MemStorage \<Rightarrow> nat \<times> MemStorage" where
  "createPaper paper clock s =
     (let ident = currentPaperId s;
          s1 = s\<lparr>currentPaperId := ident + 1\<rparr>;
          (now, s2) = new_Date clock s1;
          (newPaper, s3) = new_Object
             (paper(''id'' \<mapsto> JNum ident, ''uploadDate'' \<mapsto> JRef now, ''downloads'' \<mapsto> JNum 0)) s2
      in (newPaper, s3\<lparr>papers := Map_set (papers s3) ident newPaper\<rparr>))"

definition getPaper :: "int \<Rightarrow> MemStorage \<Rightarrow> nat option" where
  "getPaper ident s = Map_get (papers s) ident"

text \<open>\<^verbatim>\<open>Object.entries(filters).every(([key, value]) => entity[key] === value)\<close>; the
  filter object is given by its entries.\<close>

definition matches :: "cell list \<Rightarrow> (string \<times> jsval) list \<Rightarrow> nat \<Rightarrow> bool" where
  "matches h filters a = list_all (\<lambda>(key, value). strict_eq (get_field h a key) value) filters"

definition getPapers :: "(string \<times> jsval) list option \<Rightarrow> MemStorage \<Rightarrow> nat list" where
  "getPapers filters s =
     (case filters of
        None \<Rightarrow> Map_values (papers s)
      | Some fs \<Rightarrow> filter (matches (heap s) fs) (Map_values (papers s)))"

definition incrementPaperDownloads :: "int \<Rightarrow> MemStorage \<Rightarrow> nat option \<times> MemStorage" where
  "incrementPaperDownloads ident s =
     (case getPaper ident s of
        None \<Rightarrow> (None, s)
      | Some paper \<Rightarrow>
          let (updatedPaper, s1) = new_Object
                ((spread (heap s) paper)
                   (''downloads'' \<mapsto> js_add (get_field (heap s) paper ''downloads'') (JNum 1))) s
          in (Some updatedPaper, s1\<lparr>papers := Map_set (papers s1) ident updatedPaper\<rparr>))"

subsection \<open>Discussion operations\<close>

definition createDiscussionPost :: "props \<Rightarrow> int \<Rightarrow> MemStorage \<Rightarrow> nat \<times> MemStorage" where
  "createDiscussionPost post clock s =
     (let ident = currentDiscussionPostId s;
          s1 = s\<lparr>currentDiscussionPostId := ident + 1\<rparr>;
          (now, s2) = new_Date clock s1;
          (newPost, s3) = new_Object
             (post(''id'' \<mapsto> JNum ident, ''createdAt'' \<mapsto> JRef now, ''updatedAt'' \<mapsto> JRef now,
                   ''votes'' \<mapsto> JNum 0)) s2
      in (newPost, s3\<lparr>discussionPosts := Map_set (discussionPosts s3) ident newPost\<rparr>))"

definition getDiscussionPost :: "int \<Rightarrow> MemStorage \<Rightarrow> nat option" where
  "getDiscussionPost ident s = Map_get (discussionPosts s) ident"

definition getDiscussionPosts :: "(string \<times> jsval) list option \<Rightarrow> MemStorage \<Rightarrow> nat list" where
  "getDiscussionPosts filters s =
     (case filters of
        None \<Rightarrow> Map_values (discussionPosts s)
      | Some fs \<Rightarrow> filter (matches (heap s) fs) (Map_values (discussionPosts s)))"

definition createDiscussionReply :: "props \<Rightarrow> int \<Rightarrow> MemStorage \<Rightarrow> nat \<times> MemStorage" where
  "createDiscussionReply reply clock s =
     (let ident = currentDiscussionReplyId s;
          s1 = s\<lparr>currentDiscussionReplyId := ident + 1\<rparr>;
          (now, s2) = new_Date clock s1;
          (newReply, s3) = new_Object
             (reply(''id'' \<mapsto> JNum ident, ''createdAt'' \<mapsto> JRef now, ''updatedAt'' \<mapsto> JRef now,
                    ''votes'' \<mapsto> JNum 0)) s2
      in (newReply, s3\<lparr>discussionReplies := Map_set (discussionReplies s3) ident newReply\<rparr>))"

definition voteDiscussionPost :: "int \<Rightarrow> int \<Rightarrow> MemStorage \<Rightarrow> nat option \<times> MemStorage" where
  "voteDiscussionPost ident val s =
     (case getDiscussionPost ident s of
        None \<Rightarrow> (None, s)
      | Some post \<Rightarrow>
          let (updatedPost, s1) = new_Object
                ((spread (heap s) post)
                   (''votes'' \<mapsto> js_add (get_field (heap s) post ''votes'') (JNum val))) s
          in (Some updatedPost,
              s1\<lparr>discussionPosts := Map_set (discussionPosts s1) ident updatedPost\<rparr>))"

definition voteDiscussionReply :: "int \<Rightarrow> int \<Rightarrow> MemStorage \<Rightarrow> nat option \<times> MemStorage" where
  "voteDiscussionReply ident val s =
     (case Map_get (discussionReplies s) ident of
        None \<Rightarrow> (None, s)
      | Some reply \<Rightarrow>
          let (updatedReply, s1) = new_Object
                ((spread (heap s) reply)
                   (''votes'' \<mapsto> js_add (get_field (heap s) reply ''votes'') (JNum val))) s
          in (Some updatedReply,
              s1\<lparr>discussionReplies := Map_set (discussionReplies s1) ident updatedReply\<rparr>))"

subsection \<open>Resource operations\<close>

definition createResource :: "props \<Rightarrow> int \<Rightarrow> MemStorage \<Rightarrow> nat \<times> MemStorage" where
  "createResource resource clock s =
     (let ident = currentResourceId s;
          s1 = s\<lparr>currentResourceId := ident + 1\<rparr>;
          (now, s2) = new_Date clock s1;
          (newResource, s3) = new_Object
             (resource(''id'' \<mapsto> JNum ident, ''uploadDate'' \<mapsto> JRef now, ''downloads'' \<mapsto> JNum 0,
                       ''rating'' \<mapsto> JNum 0)) s2
      in (newResource, s3\<lparr>resources := Map_set (resources s3) ident newResource\<rparr>))"

definition getResource :: "int \<Rightarrow> MemStorage \<Rightarrow> nat option" where
  "getResource ident s = Map_get (resources s) ident"

definition getResources :: "(string \<times> jsval) list option \<Rightarrow> MemStorage \<Rightarrow> nat list" where
  "getResources filters s =
     (case filters of
        None \<Rightarrow> Map_values (resources s)
      | Some fs \<Rightarrow> filter (matches (heap s) fs) (Map_values (resources s)))"

definition incrementResourceDownloads :: "int \<Rightarrow> MemStorage \<Rightarrow> nat option \<times> MemStorage" where
  "incrementResourceDownloads ident s =
     (case getResource ident s of
        None \<Rightarrow> (None, s)
      | Some resource \<Rightarrow>
          let (updatedResource, s1) = new_Object
                ((spread (heap s) resource)
                   (''downloads'' \<mapsto> js_add (get_field (heap s) resource ''downloads'') (JNum 1))) s
          in (Some updatedResource,
              s1\<lparr>resources := Map_set (resources s1) ident updatedResource\<rparr>))"

definition rateResource :: "int \<Rightarrow> int \<Rightarrow> MemStorage \<Rightarrow> nat option \<times> MemStorage" where
  "rateResource ident rating s =
     (case getResource ident s of
        None \<Rightarrow> (None, s)
      | Some resource \<Rightarrow>
          let (updatedResource, s1) = new_Object
                ((spread (heap s) resource)(''rating'' \<mapsto> JNum rating)) s
          in (Some updatedResource,
              s1\<lparr>resources := Map_set (resources s1) ident updatedResource\<rparr>))"

subsection \<open>Study group operations\<close>

definition createStudyGroup :: "props \<Rightarrow> int \<Rightarrow> MemStorage \<Rightarrow> nat \<times> MemStorage" where
  "createStudyGroup grp clock s =
     (let ident = currentStudyGroupId s;
          s1 = s\<lparr>currentStudyGroupId := ident + 1\<rparr>;
          (now, s2) = new_Date clock s1;
          (newGroup, s3) = new_Object (grp(''id'' \<mapsto> JNum ident, ''createdAt'' \<mapsto> JRef now)) s2
      in (newGroup, s3\<lparr>studyGroups := Map_set (studyGroups s3) ident newGroup\<rparr>))"

definition getStudyGroup :: "int \<Rightarrow> MemStorage \<Rightarrow> nat option" where
  "getStudyGroup ident s = Map_get (studyGroups s) ident"

definition getStudyGroups :: "(string \<times> jsval) list option \<Rightarrow> MemStorage \<Rightarrow> nat list" where
  "getStudyGroups filters s =
     (case filters of
        None \<Rightarrow> Map_values (studyGroups s)
      | Some fs \<Rightarrow> filter (matches (heap s) fs) (Map_values (studyGroups s)))"

text \<open>The group ids of the membership rows of a user, as both cross-entity queries
  collect them.\<close>

definition memberGroups :: "int \<Rightarrow> MemStorage \<Rightarrow> jsval list" where
  "memberGroups userId s =
     map (\<lambda>mem. get_field (heap s) mem ''groupId'')
       (filter (\<lambda>mem. strict_eq (get_field (heap s) mem ''userId'') (JNum userId))
          (Map_values (studyGroupMembers s)))"

definition getUserStudyGroups :: "int \<Rightarrow> MemStorage \<Rightarrow> nat list" where
  "getUserStudyGroups userId s =
     filter (\<lambda>grp. get_field (heap s) grp ''id'' \<in> set (memberGroups userId s))
       (Map_values (studyGroups s))"

subsection \<open>Study group member operations\<close>

definition addStudyGroupMember :: "props \<Rightarrow> int \<Rightarrow> MemStorage \<Rightarrow> nat \<times> MemStorage" where
  "addStudyGroupMember mem clock s =
     (let ident = currentStudyGroupMemberId s;
          s1 = s\<lparr>currentStudyGroupMemberId := ident + 1\<rparr>;
          (now, s2) = new_Date clock s1;
          (newMember, s3) = new_Object (mem(''id'' \<mapsto> JNum ident, ''joinedAt'' \<mapsto> JRef now)) s2
      in (newMember, s3\<lparr>studyGroupMembers := Map_set (studyGroupMembers s3) ident newMember\<rparr>))"

definition getStudyGroupMembers :: "int \<Rightarrow> MemStorage \<Rightarrow> nat list" where
  "getStudyGroupMembers groupId s =
     filter (\<lambda>mem. strict_eq (get_field (heap s) mem ''groupId'') (JNum groupId))
       (Map_values (studyGroupMembers s))"

definition removeStudyGroupMember :: "int \<Rightarrow> int \<Rightarrow> MemStorage \<Rightarrow> bool \<times> MemStorage" where
  "removeStudyGroupMember groupId userId s =
     (case find (\<lambda>mem. strict_eq (get_field (heap s) mem ''groupId'') (JNum groupId)
                         \<and> strict_eq (get_field (heap s) mem ''userId'') (JNum userId))
             (Map_values (studyGroupMembers s)) of
        Some memberToDelete \<Rightarrow>
          (let (r, m) = Map_delete (studyGroupMembers s) (get_field (heap s) memberToDelete ''id'')
           in (r, s\<lparr>studyGroupMembers := m\<rparr>))
      | None \<Rightarrow> (False, s))"

subsection \<open>Study session operations\<close>

definition createStudySession :: "props \<Rightarrow> MemStorage \<Rightarrow> nat \<times> MemStorage" where
  "createStudySession session s =
     (let ident = currentStudySessionId s;
          s1 = s\<lparr>currentStudySessionId := ident + 1\<rparr>;
          (newSession, s2) = new_Object (session(''id'' \<mapsto> JNum ident)) s1
      in (newSession, s2\<lparr>studySessions := Map_set (studySessions s2) ident newSession\<rparr>))"

definition getStudySession :: "int \<Rightarrow> MemStorage \<Rightarrow> nat option" where
  "getStudySession ident s = Map_get (studySessions s) ident"

text \<open>The time value of \<^verbatim>\<open>new Date(session.startTime)\<close>.\<close>

definition startTime :: "(string \<Rightarrow> int option) \<Rightarrow> cell list \<Rightarrow> nat \<Rightarrow> int option" where
  "startTime parse h session = dateValue parse h (get_field h session ''startTime'')"

text \<open>\<^verbatim>\<open>Array.prototype.sort\<close> is stable; with the comparator
  \<^verbatim>\<open>getTime(a) - getTime(b)\<close> it is the stable sort by time value. The sessions that
  pass the filter all have a valid start time; the key of an invalid one (for which the
  comparator would be \<^verbatim>\<open>NaN\<close>) is immaterial. The \<^verbatim>\<open>Date\<close> objects made here do not
  escape and are not allocated in the model's heap.\<close>

definition getTime :: "(string \<Rightarrow> int option) \<Rightarrow> cell list \<Rightarrow> nat \<Rightarrow> int" where
  "getTime parse h session = (case startTime parse h session of Some t \<Rightarrow> t | None \<Rightarrow> 0)"

definition getUpcomingStudySessions ::
    "(string \<Rightarrow> int option) \<Rightarrow> int \<Rightarrow> int \<Rightarrow> MemStorage \<Rightarrow> nat list" where
  "getUpcomingStudySessions parse userId clock s =
     sort_key (getTime parse (heap s))
       (filter (\<lambda>session. get_field (heap s) session ''groupId'' \<in> set (memberGroups userId s)
                         \<and> (case startTime parse (heap s) session of
                              Some t \<Rightarrow> clock < t | None \<Rightarrow> False))
          (Map_values (studySessions s)))"

subsection \<open>Activity operations\<close>

definition createActivity :: "props \<Rightarrow> int \<Rightarrow> MemStorage \<Rightarrow> nat \<times> MemStorage" where
  "createActivity activity clock s =
     (let ident = currentActivityId s;
          s1 = s\<lparr>currentActivityId := ident + 1\<rparr>;
          (now, s2) = new_Date clock s1;
          (newActivity, s3) = new_Object
             (activity(''id'' \<mapsto> JNum ident, ''createdAt'' \<mapsto> JRef now)) s2
      in (newActivity, s3\<lparr>activities := Map_set (activities s3) ident newActivity\<rparr>))"

section \<open>Callers and runs of the store\<close>

text \<open>\<^verbatim>\<open>o.key = v\<close>, executed by code outside the store on an entity it holds a
  reference to.\<close>

definition assign :: "nat \<Rightarrow> string \<Rightarrow> jsval \<Rightarrow> MemStorage \<Rightarrow> MemStorage" where
  "assign a key v s =
     (case lookup (heap s) a of
        Some (Object f) \<Rightarrow> s\<lparr>heap := (heap s)[a := Object (f(key \<mapsto> v))]\<rparr>
      | _ \<Rightarrow> s)"

text \<open>The operations that change the store, as a caller may issue them one after the
  other, each with the value it returns.\<close>

datatype op =
    CreateUser props int
  | UpdateUser int props
  | CreatePaper props int
  | IncrementPaperDownloads int
  | CreateDiscussionPost props int
  | CreateDiscussionReply props int
  | VoteDiscussionPost int int
  | VoteDiscussionReply int int
  | CreateResource props int
  | IncrementResourceDownloads int
  | RateResource int int
  | CreateStudyGroup props int
  | AddStudyGroupMember props int
  | RemoveStudyGroupMember int int
  | CreateStudySession props
  | CreateActivity props int

definition entity :: "nat \<times> MemStorage \<Rightarrow> jsval \<times> MemStorage" where
  "entity r = (JRef (fst r), snd r)"

definition entity_or_undefined :: "nat option \<times> MemStorage \<Rightarrow> jsval \<times> MemStorage" where
  "entity_or_undefined r = ((case fst r of None \<Rightarrow> JUndefined | Some a \<Rightarrow> JRef a), snd r)"

fun step :: "op \<Rightarrow> MemStorage \<Rightarrow> jsval \<times> MemStorage" where
  "step (CreateUser u t) s = entity (createUser u t s)"
| "step (UpdateUser i u) s = entity_or_undefined (updateUser i u s)"
| "step (CreatePaper p t) s = entity (createPaper p t s)"
| "step (IncrementPaperDownloads i) s = entity_or_undefined (incrementPaperDownloads i s)"
| "step (CreateDiscussionPost p t) s = entity (createDiscussionPost p t s)"
| "step (CreateDiscussionReply r t) s = entity (createDiscussionReply r t s)"
| "step (VoteDiscussionPost i v) s = entity_or_undefined (voteDiscussionPost i v s)"
| "step (VoteDiscussionReply i v) s = entity_or_undefined (voteDiscussionReply i v s)"
| "step (CreateResource r t) s = entity (createResource r t s)"
| "step (IncrementResourceDownloads i) s = entity_or_undefined (incrementResourceDownloads i s)"
| "step (RateResource i r) s = entity_or_undefined (rateResource i r s)"
| "step (CreateStudyGroup g t) s = entity (createStudyGroup g t s)"
| "step (AddStudyGroupMember m t) s = entity (addStudyGroupMember m t s)"
| "step (RemoveStudyGroupMember g u) s =
     (JBool (fst (removeStudyGroupMember g u s)), snd (removeStudyGroupMember g u s))"
| "step (CreateStudySession x) s = entity (createStudySession x s)"
| "step (CreateActivity a t) s = entity (createActivity a t s)"

fun exec :: "op list \<Rightarrow> MemStorage \<Rightarrow> MemStorage" where
  "exec [] s = s"
| "exec (x # xs) s = exec xs (snd (step x s))"

datatype kind = User | Paper | DiscussionPost | DiscussionReply | Resource
  | StudyGroup | StudyGroupMember | StudySession | Activity

fun creates :: "op \<Rightarrow> kind option" where
  "creates (CreateUser u t) = Some User"
| "creates (CreatePaper p t) = Some Paper"
| "creates (CreateDiscussionPost p t) = Some DiscussionPost"
| "creates (CreateDiscussionReply r t) = Some DiscussionReply"
| "creates (CreateResource r t) = Some Resource"
| "creates (CreateStudyGroup g t) = Some StudyGroup"
| "creates (AddStudyGroupMember m t) = Some StudyGroupMember"
| "creates (CreateStudySession x) = Some StudySession"
| "creates (CreateActivity a t) = Some Activity"
| "creates _ = None"

fun counter :: "kind \<Rightarrow> MemStorage \<Rightarrow> int" where
  "counter User s = currentUserId s"
| "counter Paper s = currentPaperId s"
| "counter DiscussionPost s = currentDiscussionPostId s"
| "counter DiscussionReply s = currentDiscussionReplyId s"
| "counter Resource s = currentResourceId s"
| "counter StudyGroup s = currentStudyGroupId s"
| "counter StudyGroupMember s = currentStudyGroupMemberId s"
| "counter StudySession s = currentStudySessionId s"
| "counter Activity s = currentActivityId s"

text \<open>The \<^verbatim>\<open>id\<close> of the value an operation returned.\<close>

definition returned_id :: "jsval \<times> MemStorage \<Rightarrow> jsval" where
  "returned_id r =
     (case fst r of JRef a \<Rightarrow> get_field (heap (snd r)) a ''id'' | _ \<Rightarrow> JUndefined)"

text \<open>The ids that the create operations for one entity type hand out along a run.\<close>

fun issued :: "kind \<Rightarrow> op list \<Rightarrow> MemStorage \<Rightarrow> jsval list" where
  "issued k [] s = []"
| "issued k (x # xs) s =
     (if creates x = Some k then [returned_id (step x s)] else [])
       @ issued k xs (snd (step x s))"

text \<open>What a caller reads as \<^verbatim>\<open>getPaper(id).downloads\<close> and
  \<^verbatim>\<open>getDiscussionPost(id).votes\<close> (\<^verbatim>\<open>undefined\<close> when there is no such entity).\<close>

definition paper_downloads :: "int \<Rightarrow> MemStorage \<Rightarrow> jsval" where
  "paper_downloads ident s =
     (case getPaper ident s of None \<Rightarrow> JUndefined | Some a \<Rightarrow> get_field (heap s) a ''downloads'')"

definition post_votes :: "int \<Rightarrow> MemStorage \<Rightarrow> jsval" where
  "post_votes ident s =
     (case getDiscussionPost ident s of
        None \<Rightarrow> JUndefined
      | Some a \<Rightarrow> get_field (heap s) a ''votes'')"

text \<open>The time value of the \<^verbatim>\<open>Date\<close> that a property of an entity refers to:
  \<^verbatim>\<open>entity[key].getTime()\<close>, none when the property is not a valid date.\<close>

definition getTimestamp :: "cell list \<Rightarrow> nat \<Rightarrow> string \<Rightarrow> int option" where
  "getTimestamp h a key =
     (case get_field h a key of
        JRef d \<Rightarrow> (case lookup h d of Some (DateObj t) \<Rightarrow> t | _ \<Rightarrow> None)
      | _ \<Rightarrow> None)"

text \<open>A membership row of a user in a group, as \<^verbatim>\<open>removeStudyGroupMember\<close> looks for
  it.\<close>

definition member_row :: "int \<Rightarrow> int \<Rightarrow> MemStorage \<Rightarrow> nat \<Rightarrow> bool" where
  "member_row groupId userId s mem =
     (strict_eq (get_field (heap s) mem ''groupId'') (JNum groupId)
      \<and> strict_eq (get_field (heap s) mem ''userId'') (JNum userId))"

section \<open>Well-formed stores\<close>

text \<open>
  The keys of a collection without deletion are \<open>1, \<dots>, current - 1\<close> in this order; the
  keys of the membership collection, which has deletion, are increasing and below the
  counter. Every stored entity other than a user (whose properties \<^verbatim>\<open>updateUser\<close> may
  overwrite as a whole) carries its key as its \<^verbatim>\<open>id\<close>, and the counters
  \<^verbatim>\<open>downloads\<close> and \<^verbatim>\<open>votes\<close> hold numbers.
\<close>

definition dense :: "jsMap \<Rightarrow> int \<Rightarrow> bool" where
  "dense m cur = (1 \<le> cur \<and> map fst m = [1..cur - 1])"

definition keys_ok :: "jsMap \<Rightarrow> int \<Rightarrow> bool" where
  "keys_ok m cur =
     (1 \<le> cur \<and> sorted_wrt (<) (map fst m) \<and> list_all (\<lambda>k. 1 \<le> k \<and> k < cur) (map fst m))"

definition ids_ok :: "cell list \<Rightarrow> jsMap \<Rightarrow> bool" where
  "ids_ok h m = list_all (\<lambda>(k, a). spread h a ''id'' = Some (JNum k)) m"

definition num_ok :: "cell list \<Rightarrow> string \<Rightarrow> jsMap \<Rightarrow> bool" where
  "num_ok h key m =
     list_all (\<lambda>(k, a). case spread h a key of Some (JNum n) \<Rightarrow> True | _ \<Rightarrow> False) m"

definition store_inv :: "MemStorage \<Rightarrow> bool" where
  "store_inv s =
     (dense (users s) (currentUserId s)
      \<and> dense (papers s) (currentPaperId s)
      \<and> dense (discussionPosts s) (currentDiscussionPostId s)
      \<and> dense (discussionReplies s) (currentDiscussionReplyId s)
      \<and> dense (resources s) (currentResourceId s)
      \<and> dense (studyGroups s) (currentStudyGroupId s)
      \<and> keys_ok (studyGroupMembers s) (currentStudyGroupMemberId s)
      \<and> dense (studySessions s) (currentStudySessionId s)
      \<and> dense (activities s) (currentActivityId s)
      \<and> ids_ok (heap s) (papers s)
      \<and> ids_ok (heap s) (discussionPosts s)
      \<and> ids_ok (heap s) (discussionReplies s)
      \<and> ids_ok (heap s) (resources s)
      \<and> ids_ok (heap s) (studyGroups s)
      \<and> ids_ok (heap s) (studyGroupMembers s)
      \<and> ids_ok (heap s) (studySessions s)
      \<and> ids_ok (heap s) (activities s)
      \<and> num_ok (heap s) ''downloads'' (papers s)
      \<and> num_ok (heap s) ''votes'' (discussionPosts s)
      \<and> num_ok (heap s) ''votes'' (discussionReplies s)
      \<and> num_ok (heap s) ''downloads'' (resources s))"

section \<open>Example stores\<close>

text \<open>A fresh store after one \<^verbatim>\<open>createPaper\<close>.\<close>

definition one_paper :: MemStorage where
  "one_paper = snd (createPaper Map.empty 0 (MemStorage_constructor []))"

text \<open>A fresh store after one \<^verbatim>\<open>createDiscussionPost\<close>.\<close>

definition one_post :: MemStorage where
  "one_post = snd (createDiscussionPost Map.empty 0 (MemStorage_constructor []))"

text \<open>A fresh store after the creation of a group and of two membership rows, for the
  users 1 and 2.\<close>

definition two_members :: MemStorage where
  "two_members =
     exec [CreateStudyGroup Map.empty 0,
           AddStudyGroupMember [''groupId'' \<mapsto> JNum 1, ''userId'' \<mapsto> JNum 1] 0,
           AddStudyGroupMember [''groupId'' \<mapsto> JNum 1, ''userId'' \<mapsto> JNum 2] 0]
       (MemStorage_constructor [])"

text \<open>A fresh store after the creation of a group that user 1 then joins twice.\<close>

definition joined_twice :: MemStorage where
  "joined_twice =
     exec [CreateStudyGroup Map.empty 0,
           AddStudyGroupMember [''groupId'' \<mapsto> JNum 1, ''userId'' \<mapsto> JNum 1] 0,
           AddStudyGroupMember [''groupId'' \<mapsto> JNum 1, ''userId'' \<mapsto> JNum 1] 0]
       (MemStorage_constructor [])"

text \<open>A store, constructed in a heap that holds three dates (the times 50, 30 and 5),
  after the creation of a group that user 1 joins, of three sessions of this group at
  these times, and of a session of a group the user is not in.\<close>

definition three_sessions :: MemStorage where
  "three_sessions =
     exec [CreateStudyGroup Map.empty 0,
           AddStudyGroupMember [''groupId'' \<mapsto> JNum 1, ''userId'' \<mapsto> JNum 1] 0,
           CreateStudySession [''groupId'' \<mapsto> JNum 1, ''startTime'' \<mapsto> JRef 0],
           CreateStudySession [''groupId'' \<mapsto> JNum 1, ''startTime'' \<mapsto> JRef 1],
           CreateStudySession [''groupId'' \<mapsto> JNum 1, ''startTime'' \<mapsto> JRef 2],
           CreateStudySession [''groupId'' \<mapsto> JNum 2, ''startTime'' \<mapsto> JRef 0]]
       (MemStorage_constructor [DateObj (Some 50), DateObj (Some 30), DateObj (Some 5)])"

text \<open>A fresh store after the creation of three papers.\<close>

definition three_papers :: MemStorage where
  "three_papers =
     exec [CreatePaper [''course'' \<mapsto> JStr ''math'', ''year'' \<mapsto> JStr ''2020''] 0,
           CreatePaper [''course'' \<mapsto> JStr ''math'', ''year'' \<mapsto> JStr ''2021''] 0,
           CreatePaper [''course'' \<mapsto> JStr ''cs'', ''year'' \<mapsto> JStr ''2020''] 0]
       (MemStorage_constructor [])"

text \<open>A fresh store after the creation of a user and of a paper.\<close>

definition user_and_paper :: MemStorage where
  "user_and_paper =
     exec [CreateUser [''username'' \<mapsto> JStr ''ann''] 0, CreatePaper Map.empty 0]
       (MemStorage_constructor [])"

section \<open>Heap, Map and invariant lemmas\<close>

subsection \<open>Heap and Map\<close>

lemma lookup_append: "a < length h \<Longrightarrow> lookup (h @ xs) a = lookup h a"
  by (simp add: lookup_def nth_append)

lemma lookup_new: "lookup (h @ [c]) (length h) = Some c"
  by (simp add: lookup_def)

lemma spread_Some_lt: "spread h a key = Some v \<Longrightarrow> a < length h"
  by (auto simp: spread_def lookup_def split: if_splits)

lemma spread_append: "a < length h \<Longrightarrow> spread (h @ xs) a = spread h a"
  by (simp add: spread_def lookup_append)

lemma spread_new: "spread (h @ [Object f]) (length h) = f"
  by (simp add: spread_def lookup_new)

lemma Map_get_set_same: "Map_get (Map_set m k v) k = Some v"
  by (induction m) (auto simp: Map_get_def)

lemma Map_get_set_other: "k' \<noteq> k \<Longrightarrow> Map_get (Map_set m k v) k' = Map_get m k'"
  by (induction m) (auto simp: Map_get_def)

lemma Map_set_absent: "k \<notin> set (map fst m) \<Longrightarrow> Map_set m k v = m @ [(k, v)]"
  by (induction m) auto

lemma Map_set_keys_present: "k \<in> set (map fst m) \<Longrightarrow> map fst (Map_set m k v) = map fst m"
  by (induction m) force+

lemma Map_get_None: "Map_get m k = None \<longleftrightarrow> k \<notin> set (map fst m)"
  by (simp add: Map_get_def map_of_eq_None_iff)

lemma Map_get_Some_mem: "Map_get m k = Some a \<Longrightarrow> (k, a) \<in> set m"
  by (simp add: Map_get_def map_of_SomeD)

lemma set_Map_set: "set (Map_set m k v) \<subseteq> insert (k, v) (set m)"
  by (induction m) (auto split: if_splits)

lemma spread_new2: "spread (h @ [c, Object f]) (Suc (length h)) = f"
  by (simp add: spread_def lookup_def nth_append)

lemma spread_append_Some: "spread h a key = Some v \<Longrightarrow> spread (h @ xs) a key = Some v"
  using spread_Some_lt [of h a key v] by (simp add: spread_append)

subsection \<open>Well-formedness is preserved\<close>

lemma ids_ok_append: "ids_ok h m \<Longrightarrow> ids_ok (h @ xs) m"
  by (auto simp: ids_ok_def list_all_iff intro: spread_append_Some)

lemma ids_ok_Map_set:
  "ids_ok h m \<Longrightarrow> spread h a ''id'' = Some (JNum k) \<Longrightarrow> ids_ok h (Map_set m k a)"
  using set_Map_set [of m k a] by (auto simp: ids_ok_def list_all_iff)

lemma ids_ok_filter: "ids_ok h m \<Longrightarrow> ids_ok h (filter P m)"
  by (simp add: ids_ok_def list_all_iff)

lemma ids_ok_get: "ids_ok h m \<Longrightarrow> Map_get m k = Some a \<Longrightarrow> spread h a ''id'' = Some (JNum k)"
  by (auto simp: ids_ok_def list_all_iff dest: Map_get_Some_mem)

lemma num_ok_append: "num_ok h key m \<Longrightarrow> num_ok (h @ xs) key m"
proof -
  have "(case spread h a key of Some (JNum n) \<Rightarrow> True | _ \<Rightarrow> False) \<Longrightarrow>
        (case spread (h @ xs) a key of Some (JNum n) \<Rightarrow> True | _ \<Rightarrow> False)" for a
    by (auto split: option.splits jsval.splits dest: spread_append_Some [where xs = xs])
  then show "num_ok h key m \<Longrightarrow> num_ok (h @ xs) key m"
    by (auto simp: num_ok_def list_all_iff)
qed

lemma num_ok_Map_set:
  "num_ok h key m \<Longrightarrow> spread h a key = Some (JNum n) \<Longrightarrow> num_ok h key (Map_set m k a)"
  using set_Map_set [of m k a] by (auto simp: num_ok_def list_all_iff)

lemma num_ok_get:
  assumes "num_ok h key m" and "Map_get m k = Some a"
  shows "\<exists>n. spread h a key = Some (JNum n)"
proof -
  from assms(2) have "(k, a) \<in> set m" by (rule Map_get_Some_mem)
  with assms(1) have c: "case spread h a key of Some (JNum n) \<Rightarrow> True | _ \<Rightarrow> False"
    by (auto simp: num_ok_def list_all_iff)
  show ?thesis
  proof (cases "spread h a key")
    case None
    with c show ?thesis by simp
  next
    case (Some x)
    with c show ?thesis by (cases x) simp_all
  qed
qed

lemma get_field_Some: "spread h a key = Some v \<Longrightarrow> get_field h a key = v"
  by (simp add: get_field_def own_prop_def)

lemma ids_ok_update:
  "ids_ok h m \<Longrightarrow> f ''id'' = Some (JNum i) \<Longrightarrow> ids_ok (h @ [Object f]) (Map_set m i (length h))"
  by (simp add: ids_ok_append ids_ok_Map_set spread_new)

lemma num_ok_update:
  "num_ok h key m \<Longrightarrow> f key = Some (JNum n) \<Longrightarrow>
     num_ok (h @ [Object f]) key (Map_set m i (length h))"
  by (rule num_ok_Map_set [where n = n]) (simp_all add: num_ok_append spread_new)

lemma dense_Map_set_new: "dense m cur \<Longrightarrow> dense (Map_set m cur a) (cur + 1)"
  by (simp add: dense_def Map_set_absent upto_rec2)

lemma dense_Map_set_old: "dense m cur \<Longrightarrow> Map_get m k = Some b \<Longrightarrow> dense (Map_set m k a) cur"
  by (metis Map_get_None Map_set_keys_present dense_def option.distinct(1))

lemma keys_ok_Map_set_new: "keys_ok m cur \<Longrightarrow> keys_ok (Map_set m cur a) (cur + 1)"
proof -
  assume a: "keys_ok m cur"
  then have "cur \<notin> set (map fst m)" by (auto simp: keys_ok_def list_all_iff)
  then have "Map_set m cur a = m @ [(cur, a)]" by (rule Map_set_absent)
  with a show ?thesis
    by (auto simp: keys_ok_def list_all_iff sorted_wrt_append)
qed

lemma keys_ok_filter: "keys_ok m cur \<Longrightarrow> keys_ok (filter P m) cur"
proof -
  assume a: "keys_ok m cur"
  have "sorted_wrt (<) (map fst m) \<Longrightarrow> sorted_wrt (<) (map fst (filter P m))"
    by (induction m) auto
  with a show ?thesis by (auto simp: keys_ok_def list_all_iff)
qed

lemma store_inv_constructor: "store_inv (MemStorage_constructor h)"
  by (simp add: store_inv_def MemStorage_constructor_def dense_def keys_ok_def ids_ok_def num_ok_def)

lemma store_inv_createPaper: "store_inv s \<Longrightarrow> store_inv (snd (createPaper p t s))"
  by (simp add: store_inv_def createPaper_def new_Date_def new_Object_def Let_def
      ids_ok_append num_ok_append num_ok_Map_set ids_ok_Map_set dense_Map_set_new spread_new2)

lemma store_inv_incrementPaperDownloads:
  assumes "store_inv s"
  shows "store_inv (snd (incrementPaperDownloads i s))"
proof (cases "Map_get (papers s) i")
  case None
  with assms show ?thesis by (simp add: incrementPaperDownloads_def getPaper_def)
next
  case (Some a)
  from assms have "ids_ok (heap s) (papers s)"
    and "num_ok (heap s) ''downloads'' (papers s)"
    by (simp_all add: store_inv_def)
  with Some have i: "spread (heap s) a ''id'' = Some (JNum i)"
    and "\<exists>n. spread (heap s) a ''downloads'' = Some (JNum n)"
    by (auto dest: ids_ok_get num_ok_get)
  then obtain n where n: "spread (heap s) a ''downloads'' = Some (JNum n)" by blast
  from assms Some i n show ?thesis
    by (simp add: store_inv_def incrementPaperDownloads_def getPaper_def new_Object_def
        Let_def
        ids_ok_append num_ok_append dense_Map_set_old ids_ok_update num_ok_update get_field_Some)
qed

lemma store_inv_createUser: "store_inv s \<Longrightarrow> store_inv (snd (createUser u t s))"
  by (simp add: store_inv_def createUser_def new_Date_def new_Object_def Let_def
      ids_ok_append num_ok_append num_ok_Map_set ids_ok_Map_set dense_Map_set_new spread_new2)

lemma store_inv_createDiscussionPost:
  "store_inv s \<Longrightarrow> store_inv (snd (createDiscussionPost p t s))"
  by (simp add: store_inv_def createDiscussionPost_def new_Date_def new_Object_def Let_def
      ids_ok_append num_ok_append num_ok_Map_set ids_ok_Map_set dense_Map_set_new spread_new2)

lemma store_inv_createDiscussionReply:
  "store_inv s \<Longrightarrow> store_inv (snd (createDiscussionReply p t s))"
  by (simp add: store_inv_def createDiscussionReply_def new_Date_def new_Object_def Let_def
      ids_ok_append num_ok_append num_ok_Map_set ids_ok_Map_set dense_Map_set_new spread_new2)

lemma store_inv_createResource: "store_inv s \<Longrightarrow> store_inv (snd (createResource p t s))"
  by (simp add: store_inv_def createResource_def new_Date_def new_Object_def Let_def
      ids_ok_append num_ok_append num_ok_Map_set ids_ok_Map_set dense_Map_set_new spread_new2)

lemma store_inv_createStudyGroup: "store_inv s \<Longrightarrow> store_inv (snd (createStudyGroup p t s))"
  by (simp add: store_inv_def createStudyGroup_def new_Date_def new_Object_def Let_def
      ids_ok_append num_ok_append num_ok_Map_set ids_ok_Map_set dense_Map_set_new spread_new2)

lemma store_inv_addStudyGroupMember:
  "store_inv s \<Longrightarrow> store_inv (snd (addStudyGroupMember p t s))"
  by (simp add: store_inv_def addStudyGroupMember_def new_Date_def new_Object_def Let_def
      ids_ok_append num_ok_append num_ok_Map_set ids_ok_Map_set dense_Map_set_new spread_new2
      keys_ok_Map_set_new)

lemma store_inv_createActivity: "store_inv s \<Longrightarrow> store_inv (snd (createActivity p t s))"
  by (simp add: store_inv_def createActivity_def new_Date_def new_Object_def Let_def
      ids_ok_append num_ok_append num_ok_Map_set ids_ok_Map_set dense_Map_set_new spread_new2)

lemma store_inv_createStudySession: "store_inv s \<Longrightarrow> store_inv (snd (createStudySession p s))"
  by (simp add: store_inv_def createStudySession_def new_Object_def Let_def
      ids_ok_append num_ok_append num_ok_Map_set ids_ok_Map_set dense_Map_set_new spread_new)

lemma store_inv_updateUser: "store_inv s \<Longrightarrow> store_inv (snd (updateUser i u s))"
  by (auto simp: store_inv_def updateUser_def getUser_def new_Object_def Let_def
      ids_ok_append num_ok_append dense_Map_set_old split: option.splits)

lemma store_inv_voteDiscussionPost:
  assumes "store_inv s"
  shows "store_inv (snd (voteDiscussionPost i v s))"
proof (cases "Map_get (discussionPosts s) i")
  case None
  with assms show ?thesis by (simp add: voteDiscussionPost_def getDiscussionPost_def)
next
  case (Some a)
  from assms have "ids_ok (heap s) (discussionPosts s)"
    and "num_ok (heap s) ''votes'' (discussionPosts s)"
    by (simp_all add: store_inv_def)
  with Some have i: "spread (heap s) a ''id'' = Some (JNum i)"
    and "\<exists>n. spread (heap s) a ''votes'' = Some (JNum n)"
    by (auto dest: ids_ok_get num_ok_get)
  then obtain n where n: "spread (heap s) a ''votes'' = Some (JNum n)" by blast
  from assms Some i n show ?thesis
    by (simp add: store_inv_def voteDiscussionPost_def getDiscussionPost_def new_Object_def
        Let_def
        ids_ok_append num_ok_append dense_Map_set_old ids_ok_update num_ok_update get_field_Some)
qed

lemma store_inv_voteDiscussionReply:
  assumes "store_inv s"
  shows "store_inv (snd (voteDiscussionReply i v s))"
proof (cases "Map_get (discussionReplies s) i")
  case None
  with assms show ?thesis by (simp add: voteDiscussionReply_def)
next
  case (Some a)
  from assms have "ids_ok (heap s) (discussionReplies s)"
    and "num_ok (heap s) ''votes'' (discussionReplies s)"
    by (simp_all add: store_inv_def)
  with Some have i: "spread (heap s) a ''id'' = Some (JNum i)"
    and "\<exists>n. spread (heap s) a ''votes'' = Some (JNum n)"
    by (auto dest: ids_ok_get num_ok_get)
  then obtain n where n: "spread (heap s) a ''votes'' = Some (JNum n)" by blast
  from assms Some i n show ?thesis
    by (simp add: store_inv_def voteDiscussionReply_def new_Object_def Let_def
        ids_ok_append num_ok_append dense_Map_set_old ids_ok_update num_ok_update get_field_Some)
qed

lemma store_inv_incrementResourceDownloads:
  assumes "store_inv s"
  shows "store_inv (snd (incrementResourceDownloads i s))"
proof (cases "Map_get (resources s) i")
  case None
  with assms show ?thesis by (simp add: incrementResourceDownloads_def getResource_def)
next
  case (Some a)
  from assms have "ids_ok (heap s) (resources s)"
    and "num_ok (heap s) ''downloads'' (resources s)"
    by (simp_all add: store_inv_def)
  with Some have i: "spread (heap s) a ''id'' = Some (JNum i)"
    and "\<exists>n. spread (heap s) a ''downloads'' = Some (JNum n)"
    by (auto dest: ids_ok_get num_ok_get)
  then obtain n where n: "spread (heap s) a ''downloads'' = Some (JNum n)" by blast
  from assms Some i n show ?thesis
    by (simp add: store_inv_def incrementResourceDownloads_def getResource_def new_Object_def
        Let_def
        ids_ok_append num_ok_append dense_Map_set_old ids_ok_update num_ok_update get_field_Some)
qed

lemma store_inv_rateResource:
  assumes "store_inv s"
  shows "store_inv (snd (rateResource i r s))"
proof (cases "Map_get (resources s) i")
  case None
  with assms show ?thesis by (simp add: rateResource_def getResource_def)
next
  case (Some a)
  from assms have "ids_ok (heap s) (resources s)"
    and "num_ok (heap s) ''downloads'' (resources s)"
    by (simp_all add: store_inv_def)
  with Some have i: "spread (heap s) a ''id'' = Some (JNum i)"
    and "\<exists>n. spread (heap s) a ''downloads'' = Some (JNum n)"
    by (auto dest: ids_ok_get num_ok_get)
  then obtain n where n: "spread (heap s) a ''downloads'' = Some (JNum n)" by blast
  from assms Some i n show ?thesis
    by (simp add: store_inv_def rateResource_def getResource_def new_Object_def Let_def
        ids_ok_append num_ok_append dense_Map_set_old ids_ok_update num_ok_update get_field_Some)
qed

lemma store_inv_removeStudyGroupMember:
  "store_inv s \<Longrightarrow> store_inv (snd (removeStudyGroupMember g u s))"
  by (auto simp: store_inv_def removeStudyGroupMember_def Map_delete_def Let_def
      keys_ok_filter ids_ok_filter split: option.splits jsval.splits)

lemma store_inv_step: "store_inv s \<Longrightarrow> store_inv (snd (step x s))"
  by (cases x)
    (simp_all add: entity_def entity_or_undefined_def store_inv_createUser store_inv_updateUser
      store_inv_createPaper store_inv_incrementPaperDownloads store_inv_createDiscussionPost
      store_inv_createDiscussionReply store_inv_voteDiscussionPost store_inv_voteDiscussionReply
      store_inv_createResource store_inv_incrementResourceDownloads store_inv_rateResource
      store_inv_createStudyGroup store_inv_addStudyGroupMember store_inv_removeStudyGroupMember
      store_inv_createStudySession store_inv_createActivity)

lemma store_inv_exec: "store_inv s \<Longrightarrow> store_inv (exec xs s)"
  by (induction xs arbitrary: s) (simp_all add: store_inv_step)

text \<open>Every store that a run of operations reaches from the constructor, in whatever heap
  it was constructed, is well-formed; so is a well-formed store after code outside the
  store has allocated further objects.\<close>

lemma store_inv_run: "store_inv (exec ops (MemStorage_constructor h))"
  by (rule store_inv_exec [OF store_inv_constructor])

lemma store_inv_alloc: "store_inv s \<Longrightarrow> store_inv (s\<lparr>heap := heap s @ cs\<rparr>)"
  by (simp add: store_inv_def ids_ok_append num_ok_append)

subsection \<open>Counters and issued ids\<close>

lemma get_field_new2: "get_field (h @ [c, Object f]) (Suc (length h)) key = own_prop f key"
  by (simp add: get_field_def spread_new2)

lemma get_field_new: "get_field (h @ [Object f]) (length h) key = own_prop f key"
  by (simp add: get_field_def spread_new)

lemma step_creates:
  "creates x = Some k \<Longrightarrow>
     returned_id (step x s) = JNum (counter k s) \<and> counter k (snd (step x s)) = counter k s + 1"
  by (cases x)
    (auto simp: returned_id_def entity_def createUser_def createPaper_def
      createDiscussionPost_def createDiscussionReply_def createResource_def createStudyGroup_def
      addStudyGroupMember_def createStudySession_def createActivity_def
      new_Date_def new_Object_def Let_def get_field_new2 get_field_new own_prop_def)

lemma counter_update_op:
  "counter k (snd (updateUser i u s)) = counter k s"
  "counter k (snd (incrementPaperDownloads i s)) = counter k s"
  "counter k (snd (voteDiscussionPost i v s)) = counter k s"
  "counter k (snd (voteDiscussionReply i v s)) = counter k s"
  "counter k (snd (incrementResourceDownloads i s)) = counter k s"
  "counter k (snd (rateResource i v s)) = counter k s"
  "counter k (snd (removeStudyGroupMember g w s)) = counter k s"
  by (cases k; simp add: updateUser_def incrementPaperDownloads_def voteDiscussionPost_def
      voteDiscussionReply_def incrementResourceDownloads_def rateResource_def
      removeStudyGroupMember_def new_Object_def Let_def
      split: option.splits prod.splits)+

lemma counter_create_op:
  "counter k (snd (createUser p t s)) = (if k = User then counter k s + 1 else counter k s)"
  "counter k (snd (createPaper p t s)) = (if k = Paper then counter k s + 1 else counter k s)"
  "counter k (snd (createDiscussionPost p t s)) =
     (if k = DiscussionPost then counter k s + 1 else counter k s)"
  "counter k (snd (createDiscussionReply p t s)) =
     (if k = DiscussionReply then counter k s + 1 else counter k s)"
  "counter k (snd (createResource p t s)) = (if k = Resource then counter k s + 1 else counter k s)"
  "counter k (snd (createStudyGroup p t s)) =
     (if k = StudyGroup then counter k s + 1 else counter k s)"
  "counter k (snd (addStudyGroupMember p t s)) =
     (if k = StudyGroupMember then counter k s + 1 else counter k s)"
  "counter k (snd (createStudySession p s)) =
     (if k = StudySession then counter k s + 1 else counter k s)"
  "counter k (snd (createActivity p t s)) = (if k = Activity then counter k s + 1 else counter k s)"
  by (cases k; simp add: createUser_def createPaper_def
      createDiscussionPost_def createDiscussionReply_def createResource_def createStudyGroup_def
      addStudyGroupMember_def createStudySession_def createActivity_def
      new_Date_def new_Object_def Let_def)+

lemma step_counter:
  "counter k (snd (step x s)) = (if creates x = Some k then counter k s + 1 else counter k s)"
  by (cases x) (simp_all add: entity_def entity_or_undefined_def counter_update_op counter_create_op)

lemma exec_counter_mono: "counter k s \<le> counter k (exec xs s)"
proof (induction xs arbitrary: s)
  case Nil
  show ?case by simp
next
  case (Cons x xs)
  have "counter k s \<le> counter k (snd (step x s))" by (simp add: step_counter)
  also have "\<dots> \<le> counter k (exec xs (snd (step x s)))" by (rule Cons.IH)
  finally show ?case by simp
qed

lemma issued_upto: "issued k xs s = map JNum [counter k s .. counter k (exec xs s) - 1]"
proof (induction xs arbitrary: s)
  case Nil
  show ?case by simp
next
  case (Cons x xs)
  let ?s' = "snd (step x s)"
  show ?case
  proof (cases "creates x = Some k")
    case True
    have c: "counter k ?s' = counter k s + 1" using True by (simp add: step_counter)
    have "counter k ?s' \<le> counter k (exec xs ?s')" by (rule exec_counter_mono)
    with c have le: "counter k s \<le> counter k (exec xs ?s') - 1" by simp
    have "issued k (x # xs) s = JNum (counter k s) # issued k xs ?s'"
      using True step_creates [of x k s] by simp
    also have "\<dots> = JNum (counter k s) # map JNum [counter k s + 1 .. counter k (exec xs ?s') - 1]"
      by (simp add: Cons.IH c)
    also have "\<dots> = map JNum [counter k s .. counter k (exec xs ?s') - 1]"
      using le by (simp add: upto_rec1 [of "counter k s"])
    finally show ?thesis by simp
  next
    case False
    then show ?thesis by (simp add: Cons.IH step_counter)
  qed
qed

lemma sorted_wrt_upto: "sorted_wrt (<) [i..j]"
  by (simp add: sorted_wrt_iff_nth_less)

lemma counter_constructor: "counter k (MemStorage_constructor h) = 1"
  by (cases k) (simp_all add: MemStorage_constructor_def)

lemma issued_run:
  "issued k ops (MemStorage_constructor h)
     = map JNum [1 .. counter k (exec ops (MemStorage_constructor h)) - 1]"
  by (simp add: issued_upto counter_constructor)

section \<open>Identifiers\<close>

text \<open>A membership row is added, removed, and added again: the second row gets the id 2,
  not the id 1 of the row that was removed.\<close>

lemma issued_after_removal:
  "issued StudyGroupMember
     [AddStudyGroupMember [''groupId'' \<mapsto> JNum 1, ''userId'' \<mapsto> JNum 1] 0,
      RemoveStudyGroupMember 1 1,
      AddStudyGroupMember [''groupId'' \<mapsto> JNum 1, ''userId'' \<mapsto> JNum 1] 0]
     (MemStorage_constructor []) = [JNum 1, JNum 2]"
  by (simp only: issued_run exec.simps step_counter creates.simps counter_constructor)
    (simp add: upto.simps)

text \<open>
  Claim C2. Along every run of store operations that starts at a freshly constructed store,
  the ids returned by the create operation of an entity type (the \<^verbatim>\<open>id\<close> property of
  each returned entity) are numbers and form a strictly increasing sequence: every create
  returns an id greater than all ids issued before for that type. Removing group members in
  between does not change this, so no id is issued twice.
\<close>

theorem create_ids_strictly_increasing:
  "\<exists>ns. issued k ops (MemStorage_constructor h) = map JNum ns \<and> sorted_wrt (<) ns"
  using issued_upto [of k ops "MemStorage_constructor h"] sorted_wrt_upto by blast

section \<open>Download counter\<close>

lemma paper_downloads_createPaper:
  "paper_downloads (currentPaperId s) (snd (createPaper p t s)) = JNum 0"
  by (simp add: paper_downloads_def getPaper_def createPaper_def new_Date_def new_Object_def
      Let_def Map_get_set_same get_field_new2 own_prop_def)

lemma paper_downloads_increment:
  assumes "paper_downloads i s = JNum n"
  shows "paper_downloads i (snd (incrementPaperDownloads i s)) = JNum (n + 1)"
proof (cases "getPaper i s")
  case None
  with assms show ?thesis by (simp add: paper_downloads_def)
next
  case (Some a)
  with assms have "get_field (heap s) a ''downloads'' = JNum n"
    by (simp add: paper_downloads_def)
  with Some show ?thesis
    by (simp add: paper_downloads_def incrementPaperDownloads_def getPaper_def new_Object_def
        Let_def Map_get_set_same get_field_new own_prop_def)
qed

lemma paper_downloads_repeat:
  "paper_downloads i s = JNum n \<Longrightarrow>
     paper_downloads i (exec (replicate N (IncrementPaperDownloads i)) s) = JNum (n + int N)"
proof (induction N arbitrary: s n)
  case 0
  then show ?case by simp
next
  case (Suc N)
  from Suc.prems have "paper_downloads i (snd (incrementPaperDownloads i s)) = JNum (n + 1)"
    by (rule paper_downloads_increment)
  from Suc.IH [OF this] show ?case
    by (simp add: entity_or_undefined_def add.assoc)
qed

lemma incrementPaperDownloads_absent:
  "getPaper i s = None \<Longrightarrow> incrementPaperDownloads i s = (None, s)"
  by (simp add: incrementPaperDownloads_def)

lemma incrementPaperDownloads_returns:
  "getPaper i s = Some a \<Longrightarrow>
     fst (incrementPaperDownloads i s) = getPaper i (snd (incrementPaperDownloads i s))"
  by (simp add: incrementPaperDownloads_def getPaper_def new_Object_def Let_def Map_get_set_same)

lemma one_paper_eval: "one_paper =
  \<lparr> heap = [DateObj (Some 0), Object [''id'' \<mapsto> JNum 1, ''uploadDate'' \<mapsto> JRef 0, ''downloads'' \<mapsto> JNum 0]],
    users = [], papers = [(1, 1)], discussionPosts = [], discussionReplies = [],
       resources = [], studyGroups = [], studyGroupMembers = [], studySessions = [],
       activities = [],
       currentUserId = 1, currentPaperId = 2, currentDiscussionPostId = 1,
       currentDiscussionReplyId = 1, currentResourceId = 1, currentStudyGroupId = 1,
       currentStudyGroupMemberId = 1, currentStudySessionId = 1, currentActivityId = 1 \<rparr>"
  by (simp add: one_paper_def createPaper_def MemStorage_constructor_def new_Date_def new_Object_def Let_def)

text \<open>
  Claim C7. A paper just created by \<^verbatim>\<open>createPaper\<close> reads \<^verbatim>\<open>downloads = N\<close> after
  \<open>N\<close> calls of \<^verbatim>\<open>incrementPaperDownloads\<close> on its id; each call on a stored paper
  whose counter is \<open>n\<close> leaves \<open>n + 1\<close> in the store and returns the stored entity; on an
  id without a paper the call returns nothing and the store is unchanged.
\<close>

theorem incrementPaperDownloads_counts:
  "paper_downloads (currentPaperId s)
      (exec (replicate N (IncrementPaperDownloads (currentPaperId s)))
         (snd (createPaper paper clock s))) = JNum (int N)
   \<and> (paper_downloads i s' = JNum n \<longrightarrow>
        paper_downloads i (snd (incrementPaperDownloads i s')) = JNum (n + 1)
        \<and> fst (incrementPaperDownloads i s') = getPaper i (snd (incrementPaperDownloads i s')))
   \<and> (getPaper i s' = None \<longrightarrow> incrementPaperDownloads i s' = (None, s'))"
proof (intro conjI impI)
  show "paper_downloads (currentPaperId s)
      (exec (replicate N (IncrementPaperDownloads (currentPaperId s)))
         (snd (createPaper paper clock s))) = JNum (int N)"
    using paper_downloads_repeat [where N = N, OF paper_downloads_createPaper [of s paper clock]] by simp
next
  assume a: "paper_downloads i s' = JNum n"
  then show "paper_downloads i (snd (incrementPaperDownloads i s')) = JNum (n + 1)"
    by (rule paper_downloads_increment)
  from a obtain a' where "getPaper i s' = Some a'"
    by (cases "getPaper i s'") (simp_all add: paper_downloads_def)
  then show "fst (incrementPaperDownloads i s') = getPaper i (snd (incrementPaperDownloads i s'))"
    by (rule incrementPaperDownloads_returns)
next
  assume "getPaper i s' = None"
  then show "incrementPaperDownloads i s' = (None, s')"
    by (rule incrementPaperDownloads_absent)
qed

theorem incrementPaperDownloads_counts_witness:
  "paper_downloads 1 (exec (replicate 3 (IncrementPaperDownloads 1)) one_paper) = JNum 3
   \<and> paper_downloads 1 one_paper = JNum 0
   \<and> paper_downloads 1 (snd (incrementPaperDownloads 1 one_paper)) = JNum 1
   \<and> getPaper 7 one_paper = None
   \<and> incrementPaperDownloads 7 one_paper = (None, one_paper)"
proof -
  have d: "paper_downloads 1 one_paper = JNum 0"
    by (simp add: one_paper_eval paper_downloads_def getPaper_def Map_get_def get_field_def
        spread_def lookup_def own_prop_def)
  have g: "getPaper 7 one_paper = None"
    by (simp add: one_paper_eval getPaper_def Map_get_def)
  have c: "currentPaperId (MemStorage_constructor []) = 1"
    by (simp add: MemStorage_constructor_def)
  from incrementPaperDownloads_counts [of "MemStorage_constructor []" 3 Map.empty 0 1 one_paper 0]
    incrementPaperDownloads_counts [of "MemStorage_constructor []" 3 Map.empty 0 7 one_paper 0]
    d g c
  show ?thesis by (simp add: one_paper_def)
qed

section \<open>Votes\<close>

lemma post_votes_vote:
  assumes "post_votes i s = JNum v"
  shows "post_votes i (snd (voteDiscussionPost i d s)) = JNum (v + d)"
proof (cases "getDiscussionPost i s")
  case None
  with assms show ?thesis by (simp add: post_votes_def)
next
  case (Some a)
  with assms have "get_field (heap s) a ''votes'' = JNum v"
    by (simp add: post_votes_def)
  with Some show ?thesis
    by (simp add: post_votes_def voteDiscussionPost_def getDiscussionPost_def new_Object_def
        Let_def Map_get_set_same get_field_new own_prop_def)
qed

lemma post_votes_num:
  assumes "store_inv s" and "getDiscussionPost i s = Some a"
  shows "\<exists>v. post_votes i s = JNum v"
proof -
  from assms(1) have "num_ok (heap s) ''votes'' (discussionPosts s)"
    by (simp add: store_inv_def)
  with assms(2) obtain v where "spread (heap s) a ''votes'' = Some (JNum v)"
    by (auto simp: getDiscussionPost_def dest: num_ok_get)
  with assms(2) show ?thesis by (simp add: post_votes_def get_field_Some)
qed

lemma one_post_eval: "one_post =
  \<lparr> heap = [DateObj (Some 0),
            Object [''id'' \<mapsto> JNum 1, ''createdAt'' \<mapsto> JRef 0, ''updatedAt'' \<mapsto> JRef 0,
                    ''votes'' \<mapsto> JNum 0]],
    users = [], papers = [], discussionPosts = [(1, 1)], discussionReplies = [],
    resources = [], studyGroups = [], studyGroupMembers = [], studySessions = [],
    activities = [],
    currentUserId = 1, currentPaperId = 1, currentDiscussionPostId = 2,
    currentDiscussionReplyId = 1, currentResourceId = 1, currentStudyGroupId = 1,
    currentStudyGroupMemberId = 1, currentStudySessionId = 1, currentActivityId = 1 \<rparr>"
  by (simp add: one_post_def createDiscussionPost_def MemStorage_constructor_def new_Date_def
      new_Object_def Let_def)

text \<open>
  Claim C8. In a well-formed store every existing discussion post has a numeric vote count
  \<open>v\<close>; voting \<open>+1\<close> and then \<open>-1\<close>, or \<open>-1\<close> and then \<open>+1\<close>, leaves \<open>v\<close>
  in the store. A vote adds its value whatever the result: there is no lower bound, and the
  count may become negative.
\<close>

theorem vote_up_down_restores:
  assumes "store_inv s" and "getDiscussionPost i s = Some a"
  shows "\<exists>v. post_votes i s = JNum v
     \<and> post_votes i (snd (voteDiscussionPost i (- 1) (snd (voteDiscussionPost i 1 s)))) = JNum v
     \<and> post_votes i (snd (voteDiscussionPost i 1 (snd (voteDiscussionPost i (- 1) s)))) = JNum v
     \<and> (\<forall>d. post_votes i (snd (voteDiscussionPost i d s)) = JNum (v + d))"
proof -
  from assms obtain v where v: "post_votes i s = JNum v"
    using post_votes_num by blast
  have "post_votes i (snd (voteDiscussionPost i (- 1) (snd (voteDiscussionPost i 1 s)))) = JNum v"
    using post_votes_vote [OF post_votes_vote [OF v, of 1], of "- 1"] by simp
  moreover
  have "post_votes i (snd (voteDiscussionPost i 1 (snd (voteDiscussionPost i (- 1) s)))) = JNum v"
    using post_votes_vote [OF post_votes_vote [OF v, of "- 1"], of 1] by simp
  ultimately show ?thesis using v post_votes_vote [OF v] by blast
qed

theorem vote_up_down_restores_witness:
  "store_inv one_post \<and> getDiscussionPost 1 one_post = Some 1
   \<and> post_votes 1 one_post = JNum 0
   \<and> post_votes 1 (snd (voteDiscussionPost 1 (- 1) (snd (voteDiscussionPost 1 1 one_post)))) = JNum 0
   \<and> post_votes 1 (snd (voteDiscussionPost 1 1 (snd (voteDiscussionPost 1 (- 1) one_post)))) = JNum 0
   \<and> post_votes 1 (snd (voteDiscussionPost 1 (- 1) one_post)) = JNum (- 1)"
proof -
  have i: "store_inv one_post"
    unfolding one_post_def by (rule store_inv_createDiscussionPost [OF store_inv_constructor])
  have g: "getDiscussionPost 1 one_post = Some 1"
    by (simp add: one_post_eval getDiscussionPost_def Map_get_def)
  have v: "post_votes 1 one_post = JNum 0"
    by (simp add: one_post_eval post_votes_def getDiscussionPost_def Map_get_def get_field_def
        spread_def lookup_def own_prop_def)
  from vote_up_down_restores [OF i g] v i g show ?thesis by auto
qed

section \<open>Lookup by id\<close>

lemma created_found:
  "getUser (currentUserId s) (snd (createUser p t s)) = Some (fst (createUser p t s))"
  "getPaper (currentPaperId s) (snd (createPaper p t s)) = Some (fst (createPaper p t s))"
  "getDiscussionPost (currentDiscussionPostId s) (snd (createDiscussionPost p t s))
     = Some (fst (createDiscussionPost p t s))"
  "getResource (currentResourceId s) (snd (createResource p t s))
     = Some (fst (createResource p t s))"
  "getStudyGroup (currentStudyGroupId s) (snd (createStudyGroup p t s))
     = Some (fst (createStudyGroup p t s))"
  "getStudySession (currentStudySessionId s) (snd (createStudySession p s))
     = Some (fst (createStudySession p s))"
  by (simp_all add: getUser_def createUser_def getPaper_def createPaper_def
      getDiscussionPost_def createDiscussionPost_def getResource_def createResource_def
      getStudyGroup_def createStudyGroup_def getStudySession_def createStudySession_def
      new_Date_def new_Object_def Let_def Map_get_set_same)

lemma created_id:
  "get_field (heap (snd (createUser p t s))) (fst (createUser p t s)) ''id''
     = JNum (currentUserId s)"
  "get_field (heap (snd (createPaper p t s))) (fst (createPaper p t s)) ''id''
     = JNum (currentPaperId s)"
  "get_field (heap (snd (createDiscussionPost p t s))) (fst (createDiscussionPost p t s)) ''id''
     = JNum (currentDiscussionPostId s)"
  "get_field (heap (snd (createResource p t s))) (fst (createResource p t s)) ''id''
     = JNum (currentResourceId s)"
  "get_field (heap (snd (createStudyGroup p t s))) (fst (createStudyGroup p t s)) ''id''
     = JNum (currentStudyGroupId s)"
  "get_field (heap (snd (createStudySession p s))) (fst (createStudySession p s)) ''id''
     = JNum (currentStudySessionId s)"
  by (simp_all add: createUser_def createPaper_def createDiscussionPost_def createResource_def
      createStudyGroup_def createStudySession_def
      new_Date_def new_Object_def Let_def get_field_new get_field_new2 own_prop_def)

lemma dense_get_None: "dense m cur \<Longrightarrow> i \<notin> set [1..cur - 1] \<Longrightarrow> Map_get m i = None"
  by (simp add: dense_def Map_get_None)

lemma unissued:
  "JNum i \<notin> set (issued k ops (MemStorage_constructor h)) \<Longrightarrow>
     i \<notin> set [1 .. counter k (exec ops (MemStorage_constructor h)) - 1]"
  by (auto simp: issued_run)

lemma unissued_absent:
  "JNum i \<notin> set (issued User ops (MemStorage_constructor h)) \<Longrightarrow>
     getUser i (exec ops (MemStorage_constructor h)) = None"
  "JNum i \<notin> set (issued Paper ops (MemStorage_constructor h)) \<Longrightarrow>
     getPaper i (exec ops (MemStorage_constructor h)) = None"
  "JNum i \<notin> set (issued DiscussionPost ops (MemStorage_constructor h)) \<Longrightarrow>
     getDiscussionPost i (exec ops (MemStorage_constructor h)) = None"
  "JNum i \<notin> set (issued Resource ops (MemStorage_constructor h)) \<Longrightarrow>
     getResource i (exec ops (MemStorage_constructor h)) = None"
  "JNum i \<notin> set (issued StudyGroup ops (MemStorage_constructor h)) \<Longrightarrow>
     getStudyGroup i (exec ops (MemStorage_constructor h)) = None"
  "JNum i \<notin> set (issued StudySession ops (MemStorage_constructor h)) \<Longrightarrow>
     getStudySession i (exec ops (MemStorage_constructor h)) = None"
  using store_inv_run [of ops h]
  by (auto simp: store_inv_def getUser_def getPaper_def getDiscussionPost_def getResource_def
      getStudyGroup_def getStudySession_def dest!: unissued intro!: dense_get_None)

lemma issued_one_paper:
  "issued k [CreatePaper Map.empty 0] (MemStorage_constructor []) = (if k = Paper then [JNum 1] else [])"
  using step_creates [of "CreatePaper Map.empty 0" Paper "MemStorage_constructor []"]
  by (simp add: counter_constructor)

lemma exec_one_paper: "exec [CreatePaper Map.empty 0] (MemStorage_constructor []) = one_paper"
  by (simp add: one_paper_def entity_def)

text \<open>
  Claim C9. For each entity type with a lookup by id (user, paper, discussion post,
  resource, study group, study session): the entity that create returns carries the value
  of the counter as its \<^verbatim>\<open>id\<close>, and the lookup of that id right after the create returns
  the very object create returned (the same reference, hence a deep-equal value). After any
  run from a freshly constructed store, the lookup of an id that the run never issued for
  that type returns nothing.
\<close>

theorem getById_created_and_unissued:
  "getUser (currentUserId s) (snd (createUser p t s)) = Some (fst (createUser p t s))
   \<and> get_field (heap (snd (createUser p t s))) (fst (createUser p t s)) ''id''
        = JNum (currentUserId s)
   \<and> getPaper (currentPaperId s) (snd (createPaper p t s)) = Some (fst (createPaper p t s))
   \<and> get_field (heap (snd (createPaper p t s))) (fst (createPaper p t s)) ''id''
        = JNum (currentPaperId s)
   \<and> getDiscussionPost (currentDiscussionPostId s) (snd (createDiscussionPost p t s))
        = Some (fst (createDiscussionPost p t s))
   \<and> get_field (heap (snd (createDiscussionPost p t s))) (fst (createDiscussionPost p t s)) ''id''
        = JNum (currentDiscussionPostId s)
   \<and> getResource (currentResourceId s) (snd (createResource p t s))
        = Some (fst (createResource p t s))
   \<and> get_field (heap (snd (createResource p t s))) (fst (createResource p t s)) ''id''
        = JNum (currentResourceId s)
   \<and> getStudyGroup (currentStudyGroupId s) (snd (createStudyGroup p t s))
        = Some (fst (createStudyGroup p t s))
   \<and> get_field (heap (snd (createStudyGroup p t s))) (fst (createStudyGroup p t s)) ''id''
        = JNum (currentStudyGroupId s)
   \<and> getStudySession (currentStudySessionId s) (snd (createStudySession p s))
        = Some (fst (createStudySession p s))
   \<and> get_field (heap (snd (createStudySession p s))) (fst (createStudySession p s)) ''id''
        = JNum (currentStudySessionId s)
   \<and> (JNum i \<notin> set (issued User ops (MemStorage_constructor h)) \<longrightarrow>
        getUser i (exec ops (MemStorage_constructor h)) = None)
   \<and> (JNum i \<notin> set (issued Paper ops (MemStorage_constructor h)) \<longrightarrow>
        getPaper i (exec ops (MemStorage_constructor h)) = None)
   \<and> (JNum i \<notin> set (issued DiscussionPost ops (MemStorage_constructor h)) \<longrightarrow>
        getDiscussionPost i (exec ops (MemStorage_constructor h)) = None)
   \<and> (JNum i \<notin> set (issued Resource ops (MemStorage_constructor h)) \<longrightarrow>
        getResource i (exec ops (MemStorage_constructor h)) = None)
   \<and> (JNum i \<notin> set (issued StudyGroup ops (MemStorage_constructor h)) \<longrightarrow>
        getStudyGroup i (exec ops (MemStorage_constructor h)) = None)
   \<and> (JNum i \<notin> set (issued StudySession ops (MemStorage_constructor h)) \<longrightarrow>
        getStudySession i (exec ops (MemStorage_constructor h)) = None)"
  by (simp add: created_found created_id unissued_absent)

theorem getById_created_and_unissued_witness:
  "JNum 2 \<notin> set (issued User [CreatePaper Map.empty 0] (MemStorage_constructor []))
   \<and> JNum 2 \<notin> set (issued Paper [CreatePaper Map.empty 0] (MemStorage_constructor []))
   \<and> JNum 2 \<notin> set (issued DiscussionPost [CreatePaper Map.empty 0] (MemStorage_constructor []))
   \<and> JNum 2 \<notin> set (issued Resource [CreatePaper Map.empty 0] (MemStorage_constructor []))
   \<and> JNum 2 \<notin> set (issued StudyGroup [CreatePaper Map.empty 0] (MemStorage_constructor []))
   \<and> JNum 2 \<notin> set (issued StudySession [CreatePaper Map.empty 0] (MemStorage_constructor []))
   \<and> getUser 2 one_paper = None \<and> getPaper 2 one_paper = None
   \<and> getDiscussionPost 2 one_paper = None \<and> getResource 2 one_paper = None
   \<and> getStudyGroup 2 one_paper = None \<and> getStudySession 2 one_paper = None
   \<and> getPaper 1 one_paper = Some 1"
proof -
  note t = getById_created_and_unissued
    [of "MemStorage_constructor []" Map.empty 0 2 "[CreatePaper Map.empty 0]" "[]"]
  have n: "JNum 2 \<notin> set (issued k [CreatePaper Map.empty 0] (MemStorage_constructor []))" for k
    by (simp only: issued_one_paper) simp
  have "getUser 2 one_paper = None"
    using t n [of User] unfolding exec_one_paper by blast
  moreover have "getPaper 2 one_paper = None"
    using t n [of Paper] unfolding exec_one_paper by blast
  moreover have "getDiscussionPost 2 one_paper = None"
    using t n [of DiscussionPost] unfolding exec_one_paper by blast
  moreover have "getResource 2 one_paper = None"
    using t n [of Resource] unfolding exec_one_paper by blast
  moreover have "getStudyGroup 2 one_paper = None"
    using t n [of StudyGroup] unfolding exec_one_paper by blast
  moreover have "getStudySession 2 one_paper = None"
    using t n [of StudySession] unfolding exec_one_paper by blast
  moreover have "getPaper 1 one_paper = Some 1"
    by (simp add: one_paper_eval getPaper_def Map_get_def)
  ultimately show ?thesis using n by blast
qed

section \<open>Removing a group member\<close>

lemma find_split:
  "find P (map snd m) = Some a \<Longrightarrow>
     \<exists>pre k post. m = pre @ (k, a) # post \<and> P a \<and> (\<forall>e \<in> set pre. \<not> P (snd e))"
proof (induction m)
  case Nil
  then show ?case by simp
next
  case (Cons e m)
  show ?case
  proof (cases "P (snd e)")
    case True
    with Cons.prems have "snd e = a" by simp
    with True have "e # m = [] @ (fst e, a) # m \<and> P a \<and> (\<forall>e \<in> set []. \<not> P (snd e))"
      by (cases e) simp
    then show ?thesis by blast
  next
    case False
    with Cons.prems have "find P (map snd m) = Some a" by simp
    from Cons.IH [OF this] obtain pre k post
      where "m = pre @ (k, a) # post" "P a" "\<forall>e \<in> set pre. \<not> P (snd e)" by blast
    with False have "e # m = (e # pre) @ (k, a) # post \<and> P a \<and> (\<forall>x \<in> set (e # pre). \<not> P (snd x))"
      by simp
    then show ?thesis by blast
  qed
qed

lemma filter_distinct_key:
  assumes "distinct (map fst (pre @ (k, a) # post))"
  shows "filter (\<lambda>e. fst e \<noteq> k) (pre @ (k, a) # post) = pre @ post"
proof -
  from assms have "\<forall>e \<in> set pre. fst e \<noteq> k" "\<forall>e \<in> set post. fst e \<noteq> k"
    by auto
  then show ?thesis by simp
qed

lemma keys_ok_distinct: "keys_ok m cur \<Longrightarrow> distinct (map fst m)"
  by (simp add: keys_ok_def strict_sorted_iff)

lemma removeStudyGroupMember_none:
  assumes "\<not> (\<exists>mem \<in> set (Map_values (studyGroupMembers s)). member_row g u s mem)"
  shows "removeStudyGroupMember g u s = (False, s)"
proof -
  from assms have "find (member_row g u s) (Map_values (studyGroupMembers s)) = None"
    by (simp add: find_None_iff)
  then show ?thesis
    by (simp add: removeStudyGroupMember_def member_row_def [abs_def])
qed

lemma removeStudyGroupMember_some:
  assumes inv: "store_inv s"
    and ex: "\<exists>mem \<in> set (Map_values (studyGroupMembers s)). member_row g u s mem"
  shows "\<exists>pre k a post. studyGroupMembers s = pre @ (k, a) # post \<and> member_row g u s a
           \<and> removeStudyGroupMember g u s = (True, s\<lparr>studyGroupMembers := pre @ post\<rparr>)"
proof -
  from ex obtain a where f: "find (member_row g u s) (Map_values (studyGroupMembers s)) = Some a"
    by (cases "find (member_row g u s) (Map_values (studyGroupMembers s))")
       (auto simp: find_None_iff)
  then have "find (member_row g u s) (map snd (studyGroupMembers s)) = Some a"
    by (simp add: Map_values_def)
  from find_split [OF this] obtain pre k post
    where m: "studyGroupMembers s = pre @ (k, a) # post" and a: "member_row g u s a"
    by blast
  from inv have io: "ids_ok (heap s) (studyGroupMembers s)"
    and "keys_ok (studyGroupMembers s) (currentStudyGroupMemberId s)"
    by (simp_all add: store_inv_def)
  then have d: "distinct (map fst (studyGroupMembers s))"
    by (simp add: keys_ok_distinct)
  note io
  with m have "spread (heap s) a ''id'' = Some (JNum k)"
    by (simp add: ids_ok_def)
  then have i: "get_field (heap s) a ''id'' = JNum k" by (rule get_field_Some)
  from d have "filter (\<lambda>e. fst e \<noteq> k) (studyGroupMembers s) = pre @ post"
    unfolding m by (rule filter_distinct_key)
  moreover from m have "Map_has (studyGroupMembers s) k" by (simp add: Map_has_def)
  ultimately have "removeStudyGroupMember g u s = (True, s\<lparr>studyGroupMembers := pre @ post\<rparr>)"
    using f i by (simp add: removeStudyGroupMember_def member_row_def [abs_def] Map_delete_def)
  with m a show ?thesis by blast
qed

lemma two_members_eval: "two_members =
  \<lparr> heap = [DateObj (Some 0), Object [''id'' \<mapsto> JNum 1, ''createdAt'' \<mapsto> JRef 0],
            DateObj (Some 0),
            Object [''groupId'' \<mapsto> JNum 1, ''userId'' \<mapsto> JNum 1, ''id'' \<mapsto> JNum 1,
                    ''joinedAt'' \<mapsto> JRef 2],
            DateObj (Some 0),
            Object [''groupId'' \<mapsto> JNum 1, ''userId'' \<mapsto> JNum 2, ''id'' \<mapsto> JNum 2,
                    ''joinedAt'' \<mapsto> JRef 4]],
    users = [], papers = [], discussionPosts = [], discussionReplies = [],
    resources = [], studyGroups = [(1, 1)], studyGroupMembers = [(1, 3), (2, 5)],
    studySessions = [], activities = [],
    currentUserId = 1, currentPaperId = 1, currentDiscussionPostId = 1,
    currentDiscussionReplyId = 1, currentResourceId = 1, currentStudyGroupId = 2,
    currentStudyGroupMemberId = 3, currentStudySessionId = 1, currentActivityId = 1 \<rparr>"
  by (simp add: two_members_def entity_def createStudyGroup_def addStudyGroupMember_def
      MemStorage_constructor_def new_Date_def new_Object_def Let_def eval_nat_numeral)

lemma two_members_rows:
  "member_row 1 2 two_members 5" "\<not> member_row 1 2 two_members 3"
  "\<not> member_row 1 7 two_members 3" "\<not> member_row 1 7 two_members 5"
  by (simp_all add: two_members_eval member_row_def strict_eq_def get_field_def spread_def
      lookup_def own_prop_def)

text \<open>
  Claim C6. In a well-formed store: when no membership row has the given group and user,
  \<^verbatim>\<open>removeStudyGroupMember\<close> returns false and the store is unchanged; when such a row
  exists, it returns true and the membership collection loses exactly one row, which has
  that group and user, all other rows staying as and where they were.
\<close>

theorem removeStudyGroupMember_removes_one:
  assumes "store_inv s"
  shows "(\<not> (\<exists>mem \<in> set (Map_values (studyGroupMembers s)). member_row g u s mem) \<longrightarrow>
            removeStudyGroupMember g u s = (False, s))
       \<and> ((\<exists>mem \<in> set (Map_values (studyGroupMembers s)). member_row g u s mem) \<longrightarrow>
            (\<exists>pre k a post.
                studyGroupMembers s = pre @ (k, a) # post \<and> member_row g u s a
                \<and> removeStudyGroupMember g u s = (True, s\<lparr>studyGroupMembers := pre @ post\<rparr>)))"
  using assms removeStudyGroupMember_none removeStudyGroupMember_some by blast

theorem removeStudyGroupMember_removes_one_witness:
  "store_inv two_members
   \<and> (\<exists>mem \<in> set (Map_values (studyGroupMembers two_members)). member_row 1 2 two_members mem)
   \<and> fst (removeStudyGroupMember 1 2 two_members)
   \<and> length (studyGroupMembers (snd (removeStudyGroupMember 1 2 two_members))) = 1
   \<and> \<not> (\<exists>mem \<in> set (Map_values (studyGroupMembers two_members)). member_row 1 7 two_members mem)
   \<and> removeStudyGroupMember 1 7 two_members = (False, two_members)"
proof -
  have i: "store_inv two_members"
    unfolding two_members_def by (rule store_inv_run)
  have v: "Map_values (studyGroupMembers two_members) = [3, 5]"
    by (simp add: two_members_eval Map_values_def)
  have e: "\<exists>mem \<in> set (Map_values (studyGroupMembers two_members)). member_row 1 2 two_members mem"
    by (simp add: v two_members_rows)
  have n: "\<not> (\<exists>mem \<in> set (Map_values (studyGroupMembers two_members)). member_row 1 7 two_members mem)"
    by (simp add: v two_members_rows)
  have l: "length (studyGroupMembers two_members) = 2"
    by (simp add: two_members_eval)
  from removeStudyGroupMember_removes_one [OF i, of 1 2] e
  obtain pre k a post where "studyGroupMembers two_members = pre @ (k, a) # post"
    and "removeStudyGroupMember 1 2 two_members
           = (True, two_members\<lparr>studyGroupMembers := pre @ post\<rparr>)"
    by blast
  with l have "fst (removeStudyGroupMember 1 2 two_members)
      \<and> length (studyGroupMembers (snd (removeStudyGroupMember 1 2 two_members))) = 1"
    by simp
  moreover from removeStudyGroupMember_removes_one [OF i, of 1 7] n
  have "removeStudyGroupMember 1 7 two_members = (False, two_members)" by blast
  ultimately show ?thesis using i e n by blast
qed

section \<open>The groups of a user\<close>

lemma ids_ok_ids:
  "ids_ok h m \<Longrightarrow> map (\<lambda>a. get_field h a ''id'') (Map_values m) = map JNum (map fst m)"
  by (induction m) (auto simp: ids_ok_def Map_values_def get_field_Some)

lemma dense_distinct: "dense m cur \<Longrightarrow> distinct (map fst m)"
  by (simp add: dense_def)

lemma distinct_map_JNum: "distinct ks \<Longrightarrow> distinct (map JNum ks)"
  by (simp add: distinct_map inj_on_def)

lemma distinct_group_ids:
  assumes "store_inv s"
  shows "distinct (map (\<lambda>a. get_field (heap s) a ''id'') (Map_values (studyGroups s)))"
proof -
  from assms have "ids_ok (heap s) (studyGroups s)"
    and "dense (studyGroups s) (currentStudyGroupId s)"
    by (simp_all add: store_inv_def)
  then show ?thesis
    by (simp only: ids_ok_ids) (rule distinct_map_JNum, rule dense_distinct)
qed

lemma memberGroups_iff:
  "v \<in> set (memberGroups u s) \<longleftrightarrow>
     (\<exists>mem \<in> set (Map_values (studyGroupMembers s)).
         get_field (heap s) mem ''userId'' = JNum u \<and> get_field (heap s) mem ''groupId'' = v)"
  by (auto simp: memberGroups_def strict_eq_def)

lemma joined_twice_eval: "joined_twice =
  \<lparr> heap = [DateObj (Some 0), Object [''id'' \<mapsto> JNum 1, ''createdAt'' \<mapsto> JRef 0],
            DateObj (Some 0),
            Object [''groupId'' \<mapsto> JNum 1, ''userId'' \<mapsto> JNum 1, ''id'' \<mapsto> JNum 1,
                    ''joinedAt'' \<mapsto> JRef 2],
            DateObj (Some 0),
            Object [''groupId'' \<mapsto> JNum 1, ''userId'' \<mapsto> JNum 1, ''id'' \<mapsto> JNum 2,
                    ''joinedAt'' \<mapsto> JRef 4]],
    users = [], papers = [], discussionPosts = [], discussionReplies = [],
    resources = [], studyGroups = [(1, 1)], studyGroupMembers = [(1, 3), (2, 5)],
    studySessions = [], activities = [],
    currentUserId = 1, currentPaperId = 1, currentDiscussionPostId = 1,
    currentDiscussionReplyId = 1, currentResourceId = 1, currentStudyGroupId = 2,
    currentStudyGroupMemberId = 3, currentStudySessionId = 1, currentActivityId = 1 \<rparr>"
  by (simp add: joined_twice_def entity_def createStudyGroup_def addStudyGroupMember_def
      MemStorage_constructor_def new_Date_def new_Object_def Let_def eval_nat_numeral)

lemma joined_twice_groups: "getUserStudyGroups 1 joined_twice = [1]"
  by (simp add: joined_twice_eval getUserStudyGroups_def memberGroups_def Map_values_def
      strict_eq_def get_field_def spread_def lookup_def own_prop_def)

lemma joined_twice_memberGroups: "memberGroups 1 joined_twice = [JNum 1, JNum 1]"
  by (simp add: joined_twice_eval memberGroups_def Map_values_def
      strict_eq_def get_field_def spread_def lookup_def own_prop_def)

text \<open>
  Claim C10. In a well-formed store \<^verbatim>\<open>getUserStudyGroups\<close> returns no group twice (neither
  the same object nor two objects with the same id), however many membership rows the user
  has for a group; the groups returned are exactly the stored groups whose id is the
  \<^verbatim>\<open>groupId\<close> of at least one membership row of the user.
\<close>

theorem getUserStudyGroups_no_repeats:
  assumes "store_inv s"
  shows "distinct (getUserStudyGroups u s)
       \<and> distinct (map (\<lambda>g. get_field (heap s) g ''id'') (getUserStudyGroups u s))
       \<and> set (getUserStudyGroups u s) =
           {g \<in> set (Map_values (studyGroups s)).
              \<exists>mem \<in> set (Map_values (studyGroupMembers s)).
                 get_field (heap s) mem ''userId'' = JNum u
                 \<and> get_field (heap s) mem ''groupId'' = get_field (heap s) g ''id''}"
proof -
  let ?f = "\<lambda>g. get_field (heap s) g ''id''"
  have d: "distinct (map ?f (getUserStudyGroups u s))"
    unfolding getUserStudyGroups_def
    by (rule distinct_map_filter [OF distinct_group_ids [OF assms]])
  then have "distinct (getUserStudyGroups u s)" by (simp add: distinct_map)
  moreover have "set (getUserStudyGroups u s) =
           {g \<in> set (Map_values (studyGroups s)).
              \<exists>mem \<in> set (Map_values (studyGroupMembers s)).
                 get_field (heap s) mem ''userId'' = JNum u
                 \<and> get_field (heap s) mem ''groupId'' = get_field (heap s) g ''id''}"
    by (simp add: getUserStudyGroups_def memberGroups_iff)
  ultimately show ?thesis using d by blast
qed

theorem getUserStudyGroups_no_repeats_witness:
  "store_inv joined_twice
   \<and> memberGroups 1 joined_twice = [JNum 1, JNum 1]
   \<and> getUserStudyGroups 1 joined_twice = [1]
   \<and> distinct (getUserStudyGroups 1 joined_twice)"
proof -
  have i: "store_inv joined_twice"
    unfolding joined_twice_def by (rule store_inv_run)
  from getUserStudyGroups_no_repeats [OF i, of 1]
  have "distinct (getUserStudyGroups 1 joined_twice)" by blast
  with i show ?thesis by (simp add: joined_twice_groups joined_twice_memberGroups)
qed

section \<open>Upcoming sessions\<close>

lemma upcoming_time:
  "(case startTime parse h x of Some t \<Rightarrow> clock < t | None \<Rightarrow> False)
     \<longleftrightarrow> (\<exists>t. startTime parse h x = Some t \<and> clock < t)"
  by (cases "startTime parse h x") simp_all

lemma startTime_getTime:
  "startTime parse h x = Some t \<Longrightarrow> startTime parse h x = Some (getTime parse h x)"
  by (simp add: getTime_def)

lemma three_sessions_eval: "three_sessions =
  \<lparr> heap = [DateObj (Some 50), DateObj (Some 30), DateObj (Some 5),
            DateObj (Some 0), Object [''id'' \<mapsto> JNum 1, ''createdAt'' \<mapsto> JRef 3],
            DateObj (Some 0),
            Object [''groupId'' \<mapsto> JNum 1, ''userId'' \<mapsto> JNum 1, ''id'' \<mapsto> JNum 1,
                    ''joinedAt'' \<mapsto> JRef 5],
            Object [''groupId'' \<mapsto> JNum 1, ''startTime'' \<mapsto> JRef 0, ''id'' \<mapsto> JNum 1],
            Object [''groupId'' \<mapsto> JNum 1, ''startTime'' \<mapsto> JRef 1, ''id'' \<mapsto> JNum 2],
            Object [''groupId'' \<mapsto> JNum 1, ''startTime'' \<mapsto> JRef 2, ''id'' \<mapsto> JNum 3],
            Object [''groupId'' \<mapsto> JNum 2, ''startTime'' \<mapsto> JRef 0, ''id'' \<mapsto> JNum 4]],
    users = [], papers = [], discussionPosts = [], discussionReplies = [],
    resources = [], studyGroups = [(1, 4)], studyGroupMembers = [(1, 6)],
    studySessions = [(1, 7), (2, 8), (3, 9), (4, 10)], activities = [],
    currentUserId = 1, currentPaperId = 1, currentDiscussionPostId = 1,
    currentDiscussionReplyId = 1, currentResourceId = 1, currentStudyGroupId = 2,
    currentStudyGroupMemberId = 2, currentStudySessionId = 5, currentActivityId = 1 \<rparr>"
  by (simp add: three_sessions_def entity_def createStudyGroup_def addStudyGroupMember_def
      createStudySession_def
      MemStorage_constructor_def new_Date_def new_Object_def Let_def eval_nat_numeral)

lemma three_sessions_upcoming: "getUpcomingStudySessions parse 1 10 three_sessions = [8, 7]"
  by (simp add: three_sessions_eval getUpcomingStudySessions_def memberGroups_def Map_values_def
      startTime_def getTime_def strict_eq_def get_field_def spread_def lookup_def own_prop_def)

text \<open>
  Claim C5. \<^verbatim>\<open>getUpcomingStudySessions\<close> returns, each as often as it is stored, exactly
  the sessions whose \<^verbatim>\<open>groupId\<close> is that of a membership row of the user and whose start
  time is valid and strictly after the clock reading; the result is in ascending order of
  start time.
\<close>

theorem getUpcomingStudySessions_exact_sorted:
  "mset (getUpcomingStudySessions parse u clock s) =
     mset (filter
       (\<lambda>x. (\<exists>mem \<in> set (Map_values (studyGroupMembers s)).
                 get_field (heap s) mem ''userId'' = JNum u
                 \<and> get_field (heap s) mem ''groupId'' = get_field (heap s) x ''groupId'')
            \<and> (\<exists>t. startTime parse (heap s) x = Some t \<and> clock < t))
       (Map_values (studySessions s)))
   \<and> sorted (map (getTime parse (heap s)) (getUpcomingStudySessions parse u clock s))
   \<and> map (startTime parse (heap s)) (getUpcomingStudySessions parse u clock s)
       = map (\<lambda>x. Some (getTime parse (heap s) x)) (getUpcomingStudySessions parse u clock s)"
proof (intro conjI)
  show "mset (getUpcomingStudySessions parse u clock s) =
     mset (filter
       (\<lambda>x. (\<exists>mem \<in> set (Map_values (studyGroupMembers s)).
                 get_field (heap s) mem ''userId'' = JNum u
                 \<and> get_field (heap s) mem ''groupId'' = get_field (heap s) x ''groupId'')
            \<and> (\<exists>t. startTime parse (heap s) x = Some t \<and> clock < t))
       (Map_values (studySessions s)))"
    by (simp add: getUpcomingStudySessions_def upcoming_time memberGroups_iff)
  show "sorted (map (getTime parse (heap s)) (getUpcomingStudySessions parse u clock s))"
    by (simp add: getUpcomingStudySessions_def)
  show "map (startTime parse (heap s)) (getUpcomingStudySessions parse u clock s)
       = map (\<lambda>x. Some (getTime parse (heap s) x)) (getUpcomingStudySessions parse u clock s)"
    by (auto simp: getUpcomingStudySessions_def upcoming_time intro: startTime_getTime)
qed

theorem getUpcomingStudySessions_exact_sorted_witness:
  "getUpcomingStudySessions (\<lambda>x. None) 1 10 three_sessions = [8, 7]
   \<and> map (startTime (\<lambda>x. None) (heap three_sessions))
         (getUpcomingStudySessions (\<lambda>x. None) 1 10 three_sessions) = [Some 30, Some 50]
   \<and> sorted (map (getTime (\<lambda>x. None) (heap three_sessions))
         (getUpcomingStudySessions (\<lambda>x. None) 1 10 three_sessions))"
proof -
  have "map (startTime (\<lambda>x. None) (heap three_sessions)) [8, 7] = [Some 30, Some 50]"
    by (simp add: three_sessions_eval startTime_def get_field_def spread_def lookup_def
        own_prop_def)
  with getUpcomingStudySessions_exact_sorted [of "\<lambda>x. None" 1 10 three_sessions]
  show ?thesis by (simp add: three_sessions_upcoming)
qed

section \<open>Listing and filtering\<close>

lemma matches_iff:
  "matches h fs a \<longleftrightarrow> (\<forall>(key, v) \<in> set fs. strict_eq (get_field h a key) v)"
  by (simp add: matches_def list_all_iff)

lemma matches_single:
  "matches h fs a \<longleftrightarrow> (\<forall>f \<in> set fs. matches h [f] a)"
  by (auto simp: matches_def list_all_iff)

lemma filter_matches_set:
  "set (filter (matches h fs) xs) = set xs \<inter> (\<Inter>f \<in> set fs. set (filter (matches h [f]) xs))"
  using matches_single [of h fs] by auto

lemma map_of_keys:
  "distinct (map fst m) \<Longrightarrow> map (map_of m) (map fst m) = map (\<lambda>e. Some (snd e)) m"
proof (induction m)
  case Nil
  show ?case by simp
next
  case (Cons e m)
  then have "map (map_of (e # m)) (map fst m) = map (map_of m) (map fst m)"
    by (cases e) auto
  with Cons show ?case by (cases e) simp
qed

lemma dense_values:
  assumes "dense m cur"
  shows "map Some (Map_values m) = map (Map_get m) [1..cur - 1]"
proof -
  from assms have k: "map fst m = [1..cur - 1]" by (simp add: dense_def)
  then have "distinct (map fst m)" by simp
  from map_of_keys [OF this] show ?thesis
    by (simp add: k Map_values_def Map_get_def [abs_def])
qed

text \<open>
  Claim C1. In a well-formed store, for papers, discussion posts, study groups and
  resources: the list operation without a filter returns the stored entities of the ids
  \<open>1, \<dots>, current - 1\<close> in this order, which are all the entities created so far in the
  order of their creation; with a filter it returns, in the same order, exactly those of
  them for which every entry of the filter is strictly equal (\<^verbatim>\<open>===\<close>) to the entity's
  property of that name; and the entities it returns for a filter are those that the
  single-entry filters all return.
\<close>

theorem list_operations:
  assumes "store_inv s"
  shows "map Some (getPapers None s) = map (\<lambda>i. getPaper i s) [1..currentPaperId s - 1]
   \<and> getPapers (Some fs) s
       = filter (\<lambda>a. \<forall>(key, v) \<in> set fs. strict_eq (get_field (heap s) a key) v)
           (getPapers None s)
   \<and> set (getPapers (Some fs) s)
       = set (getPapers None s) \<inter> (\<Inter>f \<in> set fs. set (getPapers (Some [f]) s))
   \<and> map Some (getDiscussionPosts None s)
       = map (\<lambda>i. getDiscussionPost i s) [1..currentDiscussionPostId s - 1]
   \<and> getDiscussionPosts (Some fs) s
       = filter (\<lambda>a. \<forall>(key, v) \<in> set fs. strict_eq (get_field (heap s) a key) v)
           (getDiscussionPosts None s)
   \<and> set (getDiscussionPosts (Some fs) s)
       = set (getDiscussionPosts None s)
           \<inter> (\<Inter>f \<in> set fs. set (getDiscussionPosts (Some [f]) s))
   \<and> map Some (getStudyGroups None s)
       = map (\<lambda>i. getStudyGroup i s) [1..currentStudyGroupId s - 1]
   \<and> getStudyGroups (Some fs) s
       = filter (\<lambda>a. \<forall>(key, v) \<in> set fs. strict_eq (get_field (heap s) a key) v)
           (getStudyGroups None s)
   \<and> set (getStudyGroups (Some fs) s)
       = set (getStudyGroups None s) \<inter> (\<Inter>f \<in> set fs. set (getStudyGroups (Some [f]) s))
   \<and> map Some (getResources None s)
       = map (\<lambda>i. getResource i s) [1..currentResourceId s - 1]
   \<and> getResources (Some fs) s
       = filter (\<lambda>a. \<forall>(key, v) \<in> set fs. strict_eq (get_field (heap s) a key) v)
           (getResources None s)
   \<and> set (getResources (Some fs) s)
       = set (getResources None s) \<inter> (\<Inter>f \<in> set fs. set (getResources (Some [f]) s))"
proof -
  from assms have d: "dense (papers s) (currentPaperId s)"
    "dense (discussionPosts s) (currentDiscussionPostId s)"
    "dense (studyGroups s) (currentStudyGroupId s)"
    "dense (resources s) (currentResourceId s)"
    by (simp_all add: store_inv_def)
  have a: "map Some (getPapers None s) = map (\<lambda>i. getPaper i s) [1..currentPaperId s - 1]"
    "map Some (getDiscussionPosts None s)
       = map (\<lambda>i. getDiscussionPost i s) [1..currentDiscussionPostId s - 1]"
    "map Some (getStudyGroups None s)
       = map (\<lambda>i. getStudyGroup i s) [1..currentStudyGroupId s - 1]"
    "map Some (getResources None s)
       = map (\<lambda>i. getResource i s) [1..currentResourceId s - 1]"
    using d [THEN dense_values]
    by (simp_all add: getPapers_def getPaper_def [abs_def] getDiscussionPosts_def
        getDiscussionPost_def [abs_def] getStudyGroups_def getStudyGroup_def [abs_def]
        getResources_def getResource_def [abs_def])
  have b: "getPapers (Some fs) s
       = filter (\<lambda>a. \<forall>(key, v) \<in> set fs. strict_eq (get_field (heap s) a key) v)
           (getPapers None s)"
    "getDiscussionPosts (Some fs) s
       = filter (\<lambda>a. \<forall>(key, v) \<in> set fs. strict_eq (get_field (heap s) a key) v)
           (getDiscussionPosts None s)"
    "getStudyGroups (Some fs) s
       = filter (\<lambda>a. \<forall>(key, v) \<in> set fs. strict_eq (get_field (heap s) a key) v)
           (getStudyGroups None s)"
    "getResources (Some fs) s
       = filter (\<lambda>a. \<forall>(key, v) \<in> set fs. strict_eq (get_field (heap s) a key) v)
           (getResources None s)"
    by (simp_all add: getPapers_def getDiscussionPosts_def getStudyGroups_def getResources_def
        matches_iff [abs_def])
  have c: "set (getPapers (Some fs) s)
       = set (getPapers None s) \<inter> (\<Inter>f \<in> set fs. set (getPapers (Some [f]) s))"
    "set (getDiscussionPosts (Some fs) s)
       = set (getDiscussionPosts None s)
           \<inter> (\<Inter>f \<in> set fs. set (getDiscussionPosts (Some [f]) s))"
    "set (getStudyGroups (Some fs) s)
       = set (getStudyGroups None s) \<inter> (\<Inter>f \<in> set fs. set (getStudyGroups (Some [f]) s))"
    "set (getResources (Some fs) s)
       = set (getResources None s) \<inter> (\<Inter>f \<in> set fs. set (getResources (Some [f]) s))"
    unfolding getPapers_def getDiscussionPosts_def getStudyGroups_def getResources_def
      option.case
    by (rule filter_matches_set)+
  from a b c show ?thesis by (intro conjI)
qed

lemma three_papers_eval: "three_papers =
  \<lparr> heap = [DateObj (Some 0),
            Object [''course'' \<mapsto> JStr ''math'', ''year'' \<mapsto> JStr ''2020'', ''id'' \<mapsto> JNum 1,
                    ''uploadDate'' \<mapsto> JRef 0, ''downloads'' \<mapsto> JNum 0],
            DateObj (Some 0),
            Object [''course'' \<mapsto> JStr ''math'', ''year'' \<mapsto> JStr ''2021'', ''id'' \<mapsto> JNum 2,
                    ''uploadDate'' \<mapsto> JRef 2, ''downloads'' \<mapsto> JNum 0],
            DateObj (Some 0),
            Object [''course'' \<mapsto> JStr ''cs'', ''year'' \<mapsto> JStr ''2020'', ''id'' \<mapsto> JNum 3,
                    ''uploadDate'' \<mapsto> JRef 4, ''downloads'' \<mapsto> JNum 0]],
    users = [], papers = [(1, 1), (2, 3), (3, 5)], discussionPosts = [], discussionReplies = [],
    resources = [], studyGroups = [], studyGroupMembers = [],
    studySessions = [], activities = [],
    currentUserId = 1, currentPaperId = 4, currentDiscussionPostId = 1,
    currentDiscussionReplyId = 1, currentResourceId = 1, currentStudyGroupId = 1,
    currentStudyGroupMemberId = 1, currentStudySessionId = 1, currentActivityId = 1 \<rparr>"
  by (simp add: three_papers_def entity_def createPaper_def
      MemStorage_constructor_def new_Date_def new_Object_def Let_def eval_nat_numeral)

lemma three_papers_all: "getPapers None three_papers = [1, 3, 5]"
  by (simp add: three_papers_eval getPapers_def Map_values_def)

lemma three_papers_fields:
  "get_field (heap three_papers) (Suc 0) ''course'' = JStr ''math''"
  "get_field (heap three_papers) 3 ''course'' = JStr ''math''"
  "get_field (heap three_papers) 5 ''course'' = JStr ''cs''"
  "get_field (heap three_papers) (Suc 0) ''year'' = JStr ''2020''"
  "get_field (heap three_papers) 3 ''year'' = JStr ''2021''"
  "get_field (heap three_papers) 5 ''year'' = JStr ''2020''"
  by (simp_all add: three_papers_eval get_field_def spread_def lookup_def own_prop_def)

theorem list_operations_witness:
  "store_inv three_papers
   \<and> getPapers None three_papers = [1, 3, 5]
   \<and> map Some (getPapers None three_papers)
        = [getPaper 1 three_papers, getPaper 2 three_papers, getPaper 3 three_papers]
   \<and> getPapers (Some [(''course'', JStr ''math'')]) three_papers = [1, 3]
   \<and> getPapers (Some [(''year'', JStr ''2020'')]) three_papers = [1, 5]
   \<and> getPapers (Some [(''course'', JStr ''math''), (''year'', JStr ''2020'')]) three_papers = [1]"
proof -
  have i: "store_inv three_papers"
    unfolding three_papers_def by (rule store_inv_run)
  have c: "currentPaperId three_papers = 4" by (simp add: three_papers_eval)
  have u: "[1..(3::int)] = [1, 2, 3]" by (simp add: upto.simps)
  from list_operations [OF i, of "[(''course'', JStr ''math'')]"]
  have "getPapers (Some [(''course'', JStr ''math'')]) three_papers = [1, 3]"
    by (simp add: three_papers_all three_papers_fields strict_eq_def)
  moreover from list_operations [OF i, of "[(''year'', JStr ''2020'')]"]
  have "getPapers (Some [(''year'', JStr ''2020'')]) three_papers = [1, 5]"
    by (simp add: three_papers_all three_papers_fields strict_eq_def)
  moreover from list_operations [OF i, of "[(''course'', JStr ''math''), (''year'', JStr ''2020'')]"]
  have "getPapers (Some [(''course'', JStr ''math''), (''year'', JStr ''2020'')]) three_papers = [1]"
    by (simp add: three_papers_all three_papers_fields strict_eq_def)
  moreover from list_operations [OF i, of "[]"]
  have "map Some (getPapers None three_papers)
        = [getPaper 1 three_papers, getPaper 2 three_papers, getPaper 3 three_papers]"
    by (simp add: c u)
  ultimately show ?thesis using i three_papers_all by blast
qed

section \<open>Creation timestamps\<close>

lemma getTimestamp_new2:
  "f key = Some (JRef (length h)) \<Longrightarrow>
     getTimestamp (h @ [DateObj t, Object f]) (Suc (length h)) key = t"
  by (simp add: getTimestamp_def get_field_new2 own_prop_def lookup_def nth_append)

lemma create_stamps:
  "(let r = createUser p clock s in
      get_field (heap (snd r)) (fst r) ''id'' = JNum (currentUserId s)
      \<and> getTimestamp (heap (snd r)) (fst r) ''createdAt'' = Some clock
      \<and> Map_get (users (snd r)) (currentUserId s) = Some (fst r))"
  "(let r = createPaper p clock s in
      get_field (heap (snd r)) (fst r) ''id'' = JNum (currentPaperId s)
      \<and> getTimestamp (heap (snd r)) (fst r) ''uploadDate'' = Some clock
      \<and> Map_get (papers (snd r)) (currentPaperId s) = Some (fst r))"
  "(let r = createDiscussionPost p clock s in
      get_field (heap (snd r)) (fst r) ''id'' = JNum (currentDiscussionPostId s)
      \<and> getTimestamp (heap (snd r)) (fst r) ''createdAt'' = Some clock
      \<and> Map_get (discussionPosts (snd r)) (currentDiscussionPostId s) = Some (fst r))"
  "(let r = createDiscussionReply p clock s in
      get_field (heap (snd r)) (fst r) ''id'' = JNum (currentDiscussionReplyId s)
      \<and> getTimestamp (heap (snd r)) (fst r) ''createdAt'' = Some clock
      \<and> Map_get (discussionReplies (snd r)) (currentDiscussionReplyId s) = Some (fst r))"
  "(let r = createResource p clock s in
      get_field (heap (snd r)) (fst r) ''id'' = JNum (currentResourceId s)
      \<and> getTimestamp (heap (snd r)) (fst r) ''uploadDate'' = Some clock
      \<and> Map_get (resources (snd r)) (currentResourceId s) = Some (fst r))"
  "(let r = createStudyGroup p clock s in
      get_field (heap (snd r)) (fst r) ''id'' = JNum (currentStudyGroupId s)
      \<and> getTimestamp (heap (snd r)) (fst r) ''createdAt'' = Some clock
      \<and> Map_get (studyGroups (snd r)) (currentStudyGroupId s) = Some (fst r))"
  "(let r = addStudyGroupMember p clock s in
      get_field (heap (snd r)) (fst r) ''id'' = JNum (currentStudyGroupMemberId s)
      \<and> getTimestamp (heap (snd r)) (fst r) ''joinedAt'' = Some clock
      \<and> Map_get (studyGroupMembers (snd r)) (currentStudyGroupMemberId s) = Some (fst r))"
  "(let r = createActivity p clock s in
      get_field (heap (snd r)) (fst r) ''id'' = JNum (currentActivityId s)
      \<and> getTimestamp (heap (snd r)) (fst r) ''createdAt'' = Some clock
      \<and> Map_get (activities (snd r)) (currentActivityId s) = Some (fst r))"
  by (simp_all add: createUser_def createPaper_def createDiscussionPost_def
      createDiscussionReply_def createResource_def createStudyGroup_def addStudyGroupMember_def
      createActivity_def new_Date_def new_Object_def Let_def
      getTimestamp_new2 get_field_new2 own_prop_def Map_get_set_same)

lemma createStudySession_only_id:
  "(let r = createStudySession p s in
      get_field (heap (snd r)) (fst r) ''id'' = JNum (currentStudySessionId s)
      \<and> Map_get (studySessions (snd r)) (currentStudySessionId s) = Some (fst r)
      \<and> spread (heap (snd r)) (fst r) = p(''id'' \<mapsto> JNum (currentStudySessionId s))
      \<and> heap (snd r) = heap s @ [Object (p(''id'' \<mapsto> JNum (currentStudySessionId s)))])"
  by (simp add: createStudySession_def new_Object_def Let_def get_field_new own_prop_def
      Map_get_set_same spread_new)

text \<open>
  Claim C4, as the code has it. Every create operation gives the entity it returns and
  stores the value of the counter as its \<^verbatim>\<open>id\<close>. Every create operation other than
  \<^verbatim>\<open>createStudySession\<close> also stamps it with a \<^verbatim>\<open>Date\<close> made at the clock reading of the
  call (\<^verbatim>\<open>createdAt\<close>, \<^verbatim>\<open>uploadDate\<close> for papers and resources, \<^verbatim>\<open>joinedAt\<close> for
  memberships). \<^verbatim>\<open>createStudySession\<close> assigns the id only: the entity has the caller's
  properties and the id, and the only object allocated is the entity itself.
\<close>

theorem creates_stamp_except_session:
  "(let r = createUser p clock s in
      get_field (heap (snd r)) (fst r) ''id'' = JNum (currentUserId s)
      \<and> getTimestamp (heap (snd r)) (fst r) ''createdAt'' = Some clock
      \<and> Map_get (users (snd r)) (currentUserId s) = Some (fst r))
   \<and> (let r = createPaper p clock s in
      get_field (heap (snd r)) (fst r) ''id'' = JNum (currentPaperId s)
      \<and> getTimestamp (heap (snd r)) (fst r) ''uploadDate'' = Some clock
      \<and> Map_get (papers (snd r)) (currentPaperId s) = Some (fst r))
   \<and> (let r = createDiscussionPost p clock s in
      get_field (heap (snd r)) (fst r) ''id'' = JNum (currentDiscussionPostId s)
      \<and> getTimestamp (heap (snd r)) (fst r) ''createdAt'' = Some clock
      \<and> Map_get (discussionPosts (snd r)) (currentDiscussionPostId s) = Some (fst r))
   \<and> (let r = createDiscussionReply p clock s in
      get_field (heap (snd r)) (fst r) ''id'' = JNum (currentDiscussionReplyId s)
      \<and> getTimestamp (heap (snd r)) (fst r) ''createdAt'' = Some clock
      \<and> Map_get (discussionReplies (snd r)) (currentDiscussionReplyId s) = Some (fst r))
   \<and> (let r = createResource p clock s in
      get_field (heap (snd r)) (fst r) ''id'' = JNum (currentResourceId s)
      \<and> getTimestamp (heap (snd r)) (fst r) ''uploadDate'' = Some clock
      \<and> Map_get (resources (snd r)) (currentResourceId s) = Some (fst r))
   \<and> (let r = createStudyGroup p clock s in
      get_field (heap (snd r)) (fst r) ''id'' = JNum (currentStudyGroupId s)
      \<and> getTimestamp (heap (snd r)) (fst r) ''createdAt'' = Some clock
      \<and> Map_get (studyGroups (snd r)) (currentStudyGroupId s) = Some (fst r))
   \<and> (let r = addStudyGroupMember p clock s in
      get_field (heap (snd r)) (fst r) ''id'' = JNum (currentStudyGroupMemberId s)
      \<and> getTimestamp (heap (snd r)) (fst r) ''joinedAt'' = Some clock
      \<and> Map_get (studyGroupMembers (snd r)) (currentStudyGroupMemberId s) = Some (fst r))
   \<and> (let r = createActivity p clock s in
      get_field (heap (snd r)) (fst r) ''id'' = JNum (currentActivityId s)
      \<and> getTimestamp (heap (snd r)) (fst r) ''createdAt'' = Some clock
      \<and> Map_get (activities (snd r)) (currentActivityId s) = Some (fst r))
   \<and> (let r = createStudySession p s in
      get_field (heap (snd r)) (fst r) ''id'' = JNum (currentStudySessionId s)
      \<and> Map_get (studySessions (snd r)) (currentStudySessionId s) = Some (fst r)
      \<and> spread (heap (snd r)) (fst r) = p(''id'' \<mapsto> JNum (currentStudySessionId s))
      \<and> heap (snd r) = heap s @ [Object (p(''id'' \<mapsto> JNum (currentStudySessionId s)))])"
  by (intro conjI create_stamps createStudySession_only_id)

text \<open>The session created from \<^verbatim>\<open>{groupId: 1}\<close> in a fresh store is
  \<^verbatim>\<open>{groupId: 1, id: 1}\<close>: it has no \<^verbatim>\<open>createdAt\<close>, and the heap holds no date.\<close>

theorem createStudySession_no_timestamp:
  "fst (createStudySession [''groupId'' \<mapsto> JNum 1] (MemStorage_constructor [])) = 0
   \<and> heap (snd (createStudySession [''groupId'' \<mapsto> JNum 1] (MemStorage_constructor [])))
        = [Object [''groupId'' \<mapsto> JNum 1, ''id'' \<mapsto> JNum 1]]
   \<and> get_field (heap (snd (createStudySession [''groupId'' \<mapsto> JNum 1]
                               (MemStorage_constructor [])))) 0 ''createdAt'' = JUndefined
   \<and> getTimestamp (heap (snd (createStudySession [''groupId'' \<mapsto> JNum 1]
                               (MemStorage_constructor [])))) 0 ''createdAt'' = None"
  by (simp add: createStudySession_def MemStorage_constructor_def new_Object_def Let_def
      getTimestamp_def get_field_def spread_def lookup_def own_prop_def)

section \<open>References, not copies\<close>

lemma assign_maps:
  "users (assign a key v s) = users s"
  "papers (assign a key v s) = papers s"
  "discussionPosts (assign a key v s) = discussionPosts s"
  "resources (assign a key v s) = resources s"
  "studyGroups (assign a key v s) = studyGroups s"
  "studySessions (assign a key v s) = studySessions s"
  by (simp_all add: assign_def split: option.splits cell.splits)

lemma assign_get_field:
  "lookup (heap s) a = Some (Object f) \<Longrightarrow> get_field (heap (assign a key v s)) a key = v"
  by (auto simp: assign_def get_field_def spread_def lookup_def own_prop_def split: if_splits)

lemma heap_step: "\<exists>cs. heap (snd (step x s)) = heap s @ cs"
  by (cases x)
    (auto simp: entity_def entity_or_undefined_def createUser_def updateUser_def createPaper_def
      incrementPaperDownloads_def createDiscussionPost_def createDiscussionReply_def
      voteDiscussionPost_def voteDiscussionReply_def createResource_def
      incrementResourceDownloads_def rateResource_def createStudyGroup_def
      addStudyGroupMember_def removeStudyGroupMember_def createStudySession_def
      createActivity_def new_Date_def new_Object_def Let_def
      split: option.splits prod.splits)

lemma step_frame: "a < length (heap s) \<Longrightarrow> lookup (heap (snd (step x s))) a = lookup (heap s) a"
  using heap_step [of x s] by (auto simp: lookup_append)

lemma user_and_paper_eval: "user_and_paper =
  \<lparr> heap = [DateObj (Some 0),
            Object [''username'' \<mapsto> JStr ''ann'', ''id'' \<mapsto> JNum 1, ''createdAt'' \<mapsto> JRef 0,
                    ''points'' \<mapsto> JNum 0],
            DateObj (Some 0),
            Object [''id'' \<mapsto> JNum 1, ''uploadDate'' \<mapsto> JRef 2, ''downloads'' \<mapsto> JNum 0]],
    users = [(1, 1)], papers = [(1, 3)], discussionPosts = [], discussionReplies = [],
    resources = [], studyGroups = [], studyGroupMembers = [],
    studySessions = [], activities = [],
    currentUserId = 2, currentPaperId = 2, currentDiscussionPostId = 1,
    currentDiscussionReplyId = 1, currentResourceId = 1, currentStudyGroupId = 1,
    currentStudyGroupMemberId = 1, currentStudySessionId = 1, currentActivityId = 1 \<rparr>"
  by (simp add: user_and_paper_def entity_def createUser_def createPaper_def
      MemStorage_constructor_def new_Date_def new_Object_def Let_def eval_nat_numeral)

text \<open>
  Claim C3, as the code has it. A read hands out the address of the stored object itself:
  after the caller assigns to a property of an object that \<^verbatim>\<open>getUser\<close>, \<^verbatim>\<open>getPaper\<close> or
  \<^verbatim>\<open>getPapers\<close> returned, the store still holds that object, and the property reads as the
  caller set it; every lookup by id and every unfiltered list returns the references it
  returned before the assignment. The operations of the store, on the other hand, never
  write to an object that exists already (create and update operations allocate a new
  one), so a reference handed out earlier keeps its contents across them.
\<close>

theorem reads_return_stored_references:
  "(getUser i s = Some a \<and> lookup (heap s) a = Some (Object f) \<longrightarrow>
      getUser i (assign a key v s) = Some a \<and> get_field (heap (assign a key v s)) a key = v)
   \<and> (getPaper i s = Some a \<and> lookup (heap s) a = Some (Object f) \<longrightarrow>
      getPaper i (assign a key v s) = Some a \<and> get_field (heap (assign a key v s)) a key = v)
   \<and> (a \<in> set (getPapers None s) \<and> lookup (heap s) a = Some (Object f) \<longrightarrow>
      a \<in> set (getPapers None (assign a key v s))
      \<and> get_field (heap (assign a key v s)) a key = v)
   \<and> getUser i (assign a key v s) = getUser i s
   \<and> getPaper i (assign a key v s) = getPaper i s
   \<and> getDiscussionPost i (assign a key v s) = getDiscussionPost i s
   \<and> getResource i (assign a key v s) = getResource i s
   \<and> getStudyGroup i (assign a key v s) = getStudyGroup i s
   \<and> getStudySession i (assign a key v s) = getStudySession i s
   \<and> getPapers None (assign a key v s) = getPapers None s
   \<and> getDiscussionPosts None (assign a key v s) = getDiscussionPosts None s
   \<and> getStudyGroups None (assign a key v s) = getStudyGroups None s
   \<and> getResources None (assign a key v s) = getResources None s
   \<and> (a < length (heap s) \<longrightarrow> lookup (heap (snd (step x s))) a = lookup (heap s) a)"
  by (simp add: getUser_def getPaper_def getDiscussionPost_def getResource_def
      getStudyGroup_def getStudySession_def getPapers_def getDiscussionPosts_def
      getStudyGroups_def getResources_def assign_maps assign_get_field step_frame)

theorem reads_return_stored_references_witness:
  "getUser 1 user_and_paper = Some 1
   \<and> lookup (heap user_and_paper) 1
        = Some (Object [''username'' \<mapsto> JStr ''ann'', ''id'' \<mapsto> JNum 1,
                        ''createdAt'' \<mapsto> JRef 0, ''points'' \<mapsto> JNum 0])
   \<and> getUser 1 (assign 1 ''points'' (JNum 7) user_and_paper) = Some 1
   \<and> get_field (heap (assign 1 ''points'' (JNum 7) user_and_paper)) 1 ''points'' = JNum 7
   \<and> getPaper 1 user_and_paper = Some 3
   \<and> 3 \<in> set (getPapers None user_and_paper)
   \<and> lookup (heap user_and_paper) 3
        = Some (Object [''id'' \<mapsto> JNum 1, ''uploadDate'' \<mapsto> JRef 2, ''downloads'' \<mapsto> JNum 0])
   \<and> getPaper 1 (assign 3 ''downloads'' (JNum 9) user_and_paper) = Some 3
   \<and> 3 \<in> set (getPapers None (assign 3 ''downloads'' (JNum 9) user_and_paper))
   \<and> get_field (heap (assign 3 ''downloads'' (JNum 9) user_and_paper)) 3 ''downloads'' = JNum 9
   \<and> 3 < length (heap user_and_paper)
   \<and> lookup (heap (snd (step (IncrementPaperDownloads 1) user_and_paper))) 3
        = lookup (heap user_and_paper) 3"
proof -
  have u: "getUser 1 user_and_paper = Some 1"
    and p: "getPaper 1 user_and_paper = Some 3"
    and l: "3 \<in> set (getPapers None user_and_paper)"
    and n: "3 < length (heap user_and_paper)"
    by (simp_all add: user_and_paper_eval getUser_def getPaper_def getPapers_def Map_get_def
        Map_values_def)
  have c1: "lookup (heap user_and_paper) 1
        = Some (Object [''username'' \<mapsto> JStr ''ann'', ''id'' \<mapsto> JNum 1,
                        ''createdAt'' \<mapsto> JRef 0, ''points'' \<mapsto> JNum 0])"
    and c3: "lookup (heap user_and_paper) 3
        = Some (Object [''id'' \<mapsto> JNum 1, ''uploadDate'' \<mapsto> JRef 2, ''downloads'' \<mapsto> JNum 0])"
    by (simp_all add: user_and_paper_eval lookup_def)
  from reads_return_stored_references [of 1 user_and_paper 1 _ "''points''" "JNum 7"] u c1
  have "getUser 1 (assign 1 ''points'' (JNum 7) user_and_paper) = Some 1
      \<and> get_field (heap (assign 1 ''points'' (JNum 7) user_and_paper)) 1 ''points'' = JNum 7"
    by blast
  moreover
  from reads_return_stored_references
    [of 1 user_and_paper 3 _ "''downloads''" "JNum 9" "IncrementPaperDownloads 1"] p l n c3
  have "getPaper 1 (assign 3 ''downloads'' (JNum 9) user_and_paper) = Some 3
      \<and> 3 \<in> set (getPapers None (assign 3 ''downloads'' (JNum 9) user_and_paper))
      \<and> get_field (heap (assign 3 ''downloads'' (JNum 9) user_and_paper)) 3 ''downloads'' = JNum 9
      \<and> lookup (heap (snd (step (IncrementPaperDownloads 1) user_and_paper))) 3
        = lookup (heap user_and_paper) 3"
    by blast
  ultimately show ?thesis using u p l n c1 c3 by blast
qed

text \<open>In the store that holds one new paper, the caller sets \<^verbatim>\<open>downloads\<close> of the object
  returned by \<^verbatim>\<open>getPaper(1)\<close> to 99; no operation of the store is called, and the stored
  paper reads 99 instead of 0.\<close>

theorem read_is_not_a_copy:
  "getPaper 1 one_paper = Some 1
   \<and> paper_downloads 1 one_paper = JNum 0
   \<and> getPaper 1 (assign 1 ''downloads'' (JNum 99) one_paper) = Some 1
   \<and> paper_downloads 1 (assign 1 ''downloads'' (JNum 99) one_paper) = JNum 99"
  by (simp add: one_paper_eval paper_downloads_def getPaper_def Map_get_def assign_def
      get_field_def spread_def lookup_def own_prop_def)

end
